theory Spec2Isabelle
  imports Complex_Main "HOL-Library.AList" "HOL-Library.Log_Nat"
begin

section \<open>Python values, dictionaries and exceptions\<close>

text \<open>
  The records of the KYC core are Python dictionaries whose values come from JSON: the
  customer's form, the fields a vision model extracted from a document, the replies of
  the Bedrock agents. A value is therefore dynamically typed. Strings are lists of
  characters, each read as a code point in the range 0 to 255. A float is a finite value
  (the rational it is equal to), one of the two infinities, or not a number. A dictionary
  is an association list in insertion order whose first entry for a key is the one that
  counts.
\<close>

datatype pyfloat = Finite rat | PosInf | NegInf | NaN

datatype pyval =
    PNone
  | PBool bool
  | PInt int
  | PFloat pyfloat
  | PStr string
  | PList "pyval list"
  | PDict "(string \<times> pyval) list"

type_synonym pydict = "(string \<times> pyval) list"

text \<open>An exception is its class and its message (\<open>str(e)\<close>).\<close>

datatype exn =
    AttributeError string
  | TypeError string
  | IndexError string
  | ServiceError string

fun exn_message :: "exn \<Rightarrow> string" where
  "exn_message (AttributeError m) = m"
| "exn_message (TypeError m) = m"
| "exn_message (IndexError m) = m"
| "exn_message (ServiceError m) = m"

text \<open>Sequencing of computations that may raise: the first exception ends the run.\<close>

definition and_then :: "exn + 'a \<Rightarrow> ('a \<Rightarrow> exn + 'b) \<Rightarrow> exn + 'b" where
  "and_then m f = (case m of Inl e \<Rightarrow> Inl e | Inr v \<Rightarrow> f v)"

text \<open>Truth value of an object, as \<open>if x\<close>, \<open>not x\<close>, \<open>x or y\<close> test it.\<close>

fun truthy :: "pyval \<Rightarrow> bool" where
  "truthy PNone = False"
| "truthy (PBool b) = b"
| "truthy (PInt i) = (i \<noteq> 0)"
| "truthy (PFloat x) = (x \<noteq> Finite 0)"
| "truthy (PStr s) = (s \<noteq> [])"
| "truthy (PList xs) = (xs \<noteq> [])"
| "truthy (PDict d) = (d \<noteq> [])"

text \<open>\<open>x or y\<close>\<close>

definition py_or :: "pyval \<Rightarrow> pyval \<Rightarrow> pyval" where
  "py_or x y = (if truthy x then x else y)"

fun type_name :: "pyval \<Rightarrow> string" where
  "type_name PNone = ''NoneType''"
| "type_name (PBool b) = ''bool''"
| "type_name (PInt i) = ''int''"
| "type_name (PFloat r) = ''float''"
| "type_name (PStr s) = ''str''"
| "type_name (PList xs) = ''list''"
| "type_name (PDict d) = ''dict''"

definition quoted :: "string \<Rightarrow> string" where
  "quoted s = [CHR 0x27] @ s @ [CHR 0x27]"

definition no_attribute :: "pyval \<Rightarrow> string \<Rightarrow> exn" where
  "no_attribute v attr =
     AttributeError (quoted (type_name v) @ '' object has no attribute '' @ quoted attr)"

text \<open>Access to a method that only \<open>str\<close> has (\<open>strip\<close>, \<open>lower\<close>, \<open>split\<close>, \<open>replace\<close>).\<close>

definition str_method :: "pyval \<Rightarrow> string \<Rightarrow> exn + string" where
  "str_method v attr = (case v of PStr s \<Rightarrow> Inr s | _ \<Rightarrow> Inl (no_attribute v attr))"

text \<open>Access to \<open>get\<close> (or \<open>items\<close>), which only \<open>dict\<close> has.\<close>

definition dict_method :: "pyval \<Rightarrow> string \<Rightarrow> exn + pydict" where
  "dict_method v attr = (case v of PDict d \<Rightarrow> Inr d | _ \<Rightarrow> Inl (no_attribute v attr))"

text \<open>\<open>d.get(k, default)\<close>, \<open>d.get(k)\<close>, \<open>k in d\<close> and \<open>d[k] = v\<close>.\<close>

definition get_or :: "pydict \<Rightarrow> string \<Rightarrow> pyval \<Rightarrow> pyval" where
  "get_or d k dflt = (case map_of d k of Some v \<Rightarrow> v | None \<Rightarrow> dflt)"

definition get :: "pydict \<Rightarrow> string \<Rightarrow> pyval" where
  "get d k = get_or d k PNone"

definition has_key :: "pydict \<Rightarrow> string \<Rightarrow> bool" where
  "has_key d k = (map_of d k \<noteq> None)"

definition put :: "pydict \<Rightarrow> string \<Rightarrow> pyval \<Rightarrow> pydict" where
  "put d k v = AList.update k v d"

text \<open>
  Numbers compare by value across \<open>bool\<close>, \<open>int\<close> and \<open>float\<close>: a number is a
  float, with a \<open>bool\<close> and an \<open>int\<close> read as the finite value they have.
\<close>

fun number :: "pyval \<Rightarrow> pyfloat option" where
  "number (PBool b) = Some (Finite (if b then 1 else 0))"
| "number (PInt i) = Some (Finite (of_int i))"
| "number (PFloat x) = Some x"
| "number v = None"

text \<open>Equality and order of two floats: not a number equals nothing and is above nothing.\<close>

fun float_eq :: "pyfloat \<Rightarrow> pyfloat \<Rightarrow> bool" where
  "float_eq NaN y = False"
| "float_eq x NaN = False"
| "float_eq x y = (x = y)"

fun float_greater :: "pyfloat \<Rightarrow> pyfloat \<Rightarrow> bool" where
  "float_greater NaN y = False"
| "float_greater x NaN = False"
| "float_greater PosInf y = (y \<noteq> PosInf)"
| "float_greater NegInf y = False"
| "float_greater (Finite a) PosInf = False"
| "float_greater (Finite a) NegInf = True"
| "float_greater (Finite a) (Finite b) = (a > b)"

text \<open>
  \<open>x == y\<close>: numbers by value, strings and lists element by element, dictionaries as
  maps (the same keys with equal values), anything else unequal.
\<close>

fun py_eq :: "pyval \<Rightarrow> pyval \<Rightarrow> bool"
  and py_eq_list :: "pyval list \<Rightarrow> pyval list \<Rightarrow> bool"
  and py_eq_items :: "(string \<times> pyval) list \<Rightarrow> pydict \<Rightarrow> bool" where
  "py_eq PNone w = (w = PNone)"
| "py_eq (PBool b) w =
     (case number w of Some y \<Rightarrow> float_eq (Finite (if b then 1 else 0)) y | None \<Rightarrow> False)"
| "py_eq (PInt i) w =
     (case number w of Some y \<Rightarrow> float_eq (Finite (of_int i)) y | None \<Rightarrow> False)"
| "py_eq (PFloat x) w = (case number w of Some y \<Rightarrow> float_eq x y | None \<Rightarrow> False)"
| "py_eq (PStr s) w = (w = PStr s)"
| "py_eq (PList xs) w = (case w of PList ys \<Rightarrow> py_eq_list xs ys | _ \<Rightarrow> False)"
| "py_eq (PDict d) w =
     (case w of
        PDict e \<Rightarrow> length (remdups (map fst d)) = length (remdups (map fst e))
                     \<and> py_eq_items d e
      | _ \<Rightarrow> False)"
| "py_eq_list [] ys = (ys = [])"
| "py_eq_list (x # xs) ys =
     (case ys of [] \<Rightarrow> False | y # ys' \<Rightarrow> py_eq x y \<and> py_eq_list xs ys')"
| "py_eq_items [] e = True"
| "py_eq_items (kv # d) e =
     ((case map_of e (fst kv) of None \<Rightarrow> False | Some w \<Rightarrow> py_eq (snd kv) w)
      \<and> py_eq_items d e)"

section \<open>String methods\<close>

text \<open>\<open>str.isspace\<close> of one character; the class \<open>\s\<close> of \<open>re\<close> is the same set.\<close>

definition isspace :: "char \<Rightarrow> bool" where
  "isspace c =
     (let n = (of_char c :: nat)
      in (9 \<le> n \<and> n \<le> 13) \<or> (28 \<le> n \<and> n \<le> 32) \<or> n = 133 \<or> n = 160)"

text \<open>One character of \<open>str.lower\<close>.\<close>

definition lower_char :: "char \<Rightarrow> char" where
  "lower_char c =
     (let n = (of_char c :: nat)
      in if (65 \<le> n \<and> n \<le> 90) \<or> (192 \<le> n \<and> n \<le> 222 \<and> n \<noteq> 215)
         then char_of (n + 32) else c)"

definition lower :: "string \<Rightarrow> string" where
  "lower s = map lower_char s"

text \<open>One character of \<open>str.isdigit\<close>: the decimal digits and the superscripts 1, 2, 3.\<close>

definition isdigit_char :: "char \<Rightarrow> bool" where
  "isdigit_char c =
     (let n = (of_char c :: nat)
      in (48 \<le> n \<and> n \<le> 57) \<or> n = 178 \<or> n = 179 \<or> n = 185)"

definition isdigit :: "string \<Rightarrow> bool" where
  "isdigit s = (s \<noteq> [] \<and> list_all isdigit_char s)"

text \<open>The class \<open>\w\<close> of \<open>re\<close>: letters, digits, other numeric characters and the underscore.\<close>

definition word_char :: "char \<Rightarrow> bool" where
  "word_char c =
     (let n = (of_char c :: nat)
      in (48 \<le> n \<and> n \<le> 57) \<or> (65 \<le> n \<and> n \<le> 90) \<or> n = 95 \<or> (97 \<le> n \<and> n \<le> 122)
         \<or> n = 170 \<or> n = 178 \<or> n = 179 \<or> n = 181 \<or> n = 185 \<or> n = 186
         \<or> (188 \<le> n \<and> n \<le> 190) \<or> (192 \<le> n \<and> n \<le> 214) \<or> (216 \<le> n \<and> n \<le> 246)
         \<or> 248 \<le> n)"

text \<open>\<open>s.strip()\<close>\<close>

definition strip :: "string \<Rightarrow> string" where
  "strip s = rev (dropWhile isspace (rev (dropWhile isspace s)))"

text \<open>
  \<open>s.split()\<close>: the maximal runs of characters that are not white space. The first
  argument is the word being read.
\<close>

fun split_from :: "string \<Rightarrow> string \<Rightarrow> string list" where
  "split_from cur [] = (if cur = [] then [] else [cur])"
| "split_from cur (c # cs) =
     (if isspace c
      then (if cur = [] then split_from [] cs else cur # split_from [] cs)
      else split_from (cur @ [c]) cs)"

definition split :: "string \<Rightarrow> string list" where
  "split s = split_from [] s"

text \<open>\<open>sep.join(words)\<close>\<close>

fun join :: "string \<Rightarrow> string list \<Rightarrow> string" where
  "join sep [] = []"
| "join sep [w] = w"
| "join sep (w # ws) = w @ sep @ join sep ws"

text \<open>\<open>s.startswith(p)\<close> and \<open>p in s\<close>\<close>

definition startswith :: "string \<Rightarrow> string \<Rightarrow> bool" where
  "startswith s p = (take (length p) s = p)"

fun contains :: "string \<Rightarrow> string \<Rightarrow> bool" where
  "contains [] p = (p = [])"
| "contains (c # cs) p = (startswith (c # cs) p \<or> contains cs p)"

section \<open>Similarity primitives\<close>

text \<open>
  Similarities and thresholds are Python floats, that is IEEE 754 binary64 numbers. A
  float is written here as a rational that denotes the float nearest to it: \<open>7 / 10\<close>
  is the literal \<open>0.7\<close>, and the quotient of two set sizes is the result of the
  division. \<open>double\<close> gives the exact value of the float so denoted, rounding to
  nearest with ties to even, with the gradual underflow of the format; all the values
  that occur lie between 0 and 1, far below its overflow. Products and sums round their
  exact result again, and comparisons are those of the exact values.
\<close>

definition pow2 :: "int \<Rightarrow> rat" where
  "pow2 e = (if e \<ge> 0 then 2 ^ nat e else 1 / 2 ^ nat (- e))"

text \<open>The exponent of a positive rational: the largest \<open>e\<close> with \<open>pow2 e\<close> at most it.\<close>

definition floor_log2 :: "rat \<Rightarrow> int" where
  "floor_log2 x =
     (let d = bitlen (fst (quotient_of x)) - bitlen (snd (quotient_of x))
      in if pow2 d \<le> x then d else d - 1)"

definition round_half_even :: "rat \<Rightarrow> int" where
  "round_half_even m =
     (let f = \<lfloor>m\<rfloor>; r = m - of_int f
      in if r < 1 / 2 then f else if r > 1 / 2 then f + 1 else if even f then f else f + 1)"

definition double :: "rat \<Rightarrow> rat" where
  "double x =
     (if x = 0 then 0
      else let e = max (floor_log2 \<bar>x\<bar>) (- 1022);
               ulp = pow2 (e - 52)
           in sgn x * of_int (round_half_even (\<bar>x\<bar> / ulp)) * ulp)"

text \<open>\<open>x * y\<close>, \<open>x + y\<close> and \<open>x >= y\<close> on floats.\<close>

definition float_times :: "rat \<Rightarrow> rat \<Rightarrow> rat" where
  "float_times x y = double (double x * double y)"

definition float_plus :: "rat \<Rightarrow> rat \<Rightarrow> rat" where
  "float_plus x y = double (double x + double y)"

definition float_ge :: "rat \<Rightarrow> rat \<Rightarrow> bool" where
  "float_ge x y = (double x \<ge> double y)"

text \<open>\<open>_normalize_string\<close>: expand the abbreviations word by word.\<close>

definition abbreviations :: "(string \<times> string) list" where
  "abbreviations =
    [(''st'', ''street''), (''ave'', ''avenue''), (''rd'', ''road''), (''dr'', ''drive''),
     (''ln'', ''lane''), (''blvd'', ''boulevard''), (''corp'', ''corporation''),
     (''ltd'', ''limited''), (''inc'', ''incorporated''), (''co'', ''company''),
     (''eng'', ''engineer''), (''dev'', ''developer''), (''mgr'', ''manager''),
     (''dir'', ''director''), (''pres'', ''president''), (''ceo'', ''chief executive officer''),
     (''cto'', ''chief technology officer''), (''cfo'', ''chief financial officer'')]"

definition normalize_string :: "string \<Rightarrow> string" where
  "normalize_string text =
     join '' ''
       (map (\<lambda>word. case map_of abbreviations word of Some full \<Rightarrow> full | None \<Rightarrow> word)
         (split text))"

text \<open>\<open>_word_similarity\<close>: Jaccard index of the two sets of words.\<close>

definition word_similarity :: "string \<Rightarrow> string \<Rightarrow> rat" where
  "word_similarity str1 str2 =
     (let words1 = set (split str1); words2 = set (split str2)
      in if words1 = {} \<or> words2 = {} then 0
         else of_nat (card (words1 \<inter> words2)) / of_nat (card (words1 \<union> words2)))"

text \<open>\<open>_char_similarity\<close>: Jaccard index of the two sets of characters other than the space.\<close>

definition char_similarity :: "string \<Rightarrow> string \<Rightarrow> rat" where
  "char_similarity str1 str2 =
     (if length str1 = 0 \<and> length str2 = 0 then 1
      else if length str1 = 0 \<or> length str2 = 0 then 0
      else let chars1 = set (filter (\<lambda>c. c \<noteq> CHR '' '') str1);
               chars2 = set (filter (\<lambda>c. c \<noteq> CHR '' '') str2)
           in if chars1 = {} \<or> chars2 = {} then 0
              else of_nat (card (chars1 \<inter> chars2)) / of_nat (card (chars1 \<union> chars2)))"

text \<open>
  \<open>_is_abbreviation\<close>: an abbreviation has at least two characters. Against one word it
  is a part of the word; against several it is their initials or the beginning of one of
  them.
\<close>

definition is_abbreviation :: "string \<Rightarrow> string \<Rightarrow> bool" where
  "is_abbreviation abbrev full_text =
     (if length abbrev < 2 then False
      else let words = split full_text
           in if length words = 1 then contains (lower (hd words)) (lower abbrev)
              else let first_letters =
                         map (\<lambda>word. lower_char (hd word)) (filter (\<lambda>word. word \<noteq> []) words)
                   in if lower abbrev = first_letters then True
                      else list_ex (\<lambda>word. startswith (lower word) (lower abbrev)) words)"

text \<open>\<open>_abbreviation_similarity\<close>\<close>

definition abbreviation_similarity :: "string \<Rightarrow> string \<Rightarrow> rat" where
  "abbreviation_similarity str1 str2 =
     (let words1 = split str1; words2 = split str2
      in if length words1 = 1 \<and> length words2 > 1
         then (if is_abbreviation (hd words1) str2 then 9 / 10 else 0)
         else if length words2 = 1 \<and> length words1 > 1
         then (if is_abbreviation (hd words2) str1 then 9 / 10 else 0)
         else 0)"

text \<open>
  \<open>_check_name_variations\<close>: the two tables of first names and their informal forms.
  A key that the source writes twice carries the same list both times.
\<close>

definition nicknames :: "(string \<times> string list) list" where
  "nicknames =
    [(''william'', [''bill'', ''billy'', ''will'', ''willy'']),
     (''robert'', [''bob'', ''rob'', ''robby'', ''bobby'']),
     (''richard'', [''rick'', ''rich'', ''dick'', ''ricky'']),
     (''james'', [''jim'', ''jimmy'', ''jamie'']),
     (''michael'', [''mike'', ''mikey'', ''mick'', ''mickey'']),
     (''david'', [''dave'', ''davey'']), (''christopher'', [''chris'', ''topher'']),
     (''daniel'', [''dan'', ''danny'']), (''matthew'', [''matt'', ''matty'']),
     (''andrew'', [''andy'', ''drew'']),
     (''elizabeth'', [''liz'', ''lizzy'', ''beth'', ''betty'', ''lisa'']),
     (''margaret'', [''maggie'', ''meg'', ''peggy'']),
     (''patricia'', [''pat'', ''patty'', ''trish'']), (''jennifer'', [''jen'', ''jenny'']),
     (''susan'', [''sue'', ''suzie'']), (''jessica'', [''jess'', ''jessie'']),
     (''sarah'', [''sally'', ''sara'']), (''karen'', [''kari'', ''karen'']),
     (''nancy'', [''nan'', ''nancy'']), (''lisa'', [''lisa'', ''liz'']),
     (''helen'', [''helen'', ''helena'']), (''sandra'', [''sandy'', ''sandra'']),
     (''donna'', [''donna'', ''don'']), (''carol'', [''carol'', ''caroline'']),
     (''ruth'', [''ruth'', ''ruthie'']), (''sharon'', [''sharon'', ''shari'']),
     (''michelle'', [''michelle'', ''mickey'']), (''laura'', [''laura'', ''laurie'']),
     (''emily'', [''emily'', ''em'']), (''kimberly'', [''kim'', ''kimberly'']),
     (''deborah'', [''deb'', ''debbie'']), (''dorothy'', [''dot'', ''dotty'', ''dottie'']),
     (''linda'', [''linda'', ''lin'']), (''barbara'', [''barb'', ''barbara'']),
     (''ashley'', [''ash'', ''ashley'']), (''amanda'', [''mandy'', ''amanda'']),
     (''stephanie'', [''steph'', ''stephanie'']), (''nicole'', [''nikki'', ''nicole'']),
     (''emma'', [''emma'', ''em'']), (''samantha'', [''sam'', ''samantha'']),
     (''katherine'', [''kate'', ''kathy'', ''katie'', ''kat'']),
     (''christine'', [''chris'', ''christine'']), (''debra'', [''deb'', ''debbie'']),
     (''rachel'', [''rach'', ''rachel'']), (''carolyn'', [''carol'', ''carolyn'']),
     (''janet'', [''jan'', ''janet'']), (''virginia'', [''ginny'', ''virginia'']),
     (''maria'', [''maria'', ''marie'']), (''heather'', [''heather'', ''heath'']),
     (''diane'', [''diane'', ''diana'']), (''julie'', [''julie'', ''jules'']),
     (''joyce'', [''joyce'', ''joy'']), (''victoria'', [''vicky'', ''victoria'']),
     (''kelly'', [''kelly'', ''kel'']), (''christina'', [''tina'', ''christina'']),
     (''joan'', [''joan'', ''jo'']), (''evelyn'', [''eve'', ''evelyn'']),
     (''lauren'', [''lauren'', ''laurie'']), (''judith'', [''judy'', ''judith'']),
     (''megan'', [''meg'', ''megan'']), (''cheryl'', [''cheryl'', ''cher'']),
     (''andrea'', [''andy'', ''andrea'']), (''hannah'', [''hannah'', ''hanna'']),
     (''jacqueline'', [''jackie'', ''jacqueline'']), (''martha'', [''martha'', ''marty'']),
     (''gloria'', [''gloria'', ''glory'']), (''ann'', [''ann'', ''annie'']),
     (''brenda'', [''brenda'', ''bren'']), (''pamela'', [''pam'', ''pamela''])]"

definition common_variations :: "(string \<times> string list) list" where
  "common_variations =
    [(''john'', [''johnny'', ''jon'', ''jonathan'']), (''joseph'', [''joe'', ''joey'']),
     (''thomas'', [''tom'', ''tommy'']), (''charles'', [''charlie'', ''chuck'']),
     (''christopher'', [''chris'', ''topher'']), (''anthony'', [''tony'', ''ant'']),
     (''donald'', [''don'', ''donny'']), (''steven'', [''steve'', ''stevie'']),
     (''paul'', [''paulie'']), (''mark'', [''marky'']), (''kenneth'', [''ken'', ''kenny'']),
     (''george'', [''georgie'']), (''timothy'', [''tim'', ''timmy'']),
     (''ronald'', [''ron'', ''ronnie'']), (''jason'', [''jay'']),
     (''edward'', [''ed'', ''eddie'', ''ted'']), (''jeffrey'', [''jeff'']),
     (''ryan'', [''ry'']), (''jacob'', [''jake'']), (''gary'', [''gary'']),
     (''nicholas'', [''nick'', ''nickie'']), (''eric'', [''eric'']),
     (''jonathan'', [''jon'', ''jonny'']), (''stephen'', [''steve'', ''stevie'']),
     (''larry'', [''larry'']), (''justin'', [''justin'']), (''scott'', [''scotty'']),
     (''brandon'', [''brandon'']), (''benjamin'', [''ben'', ''benny'']),
     (''samuel'', [''sam'', ''sammy'']), (''frank'', [''frankie'']), (''gregory'', [''greg'']),
     (''raymond'', [''ray'']), (''alexander'', [''alex'', ''al'']),
     (''patrick'', [''pat'', ''patty'']), (''jack'', [''jackie'']), (''dennis'', [''denny'']),
     (''jerry'', [''jerry'']), (''tyler'', [''ty'']), (''aaron'', [''aaron'']),
     (''jose'', [''jose'']), (''adam'', [''adam'']), (''nathan'', [''nate'']),
     (''henry'', [''hank'']), (''douglas'', [''doug'']), (''zachary'', [''zach'', ''zack'']),
     (''peter'', [''pete'']), (''kyle'', [''kyle'']), (''walter'', [''walt'']),
     (''ethan'', [''ethan'']), (''jeremy'', [''jeremy'']), (''harold'', [''harry'', ''hal'']),
     (''seth'', [''seth'']), (''christian'', [''chris'']), (''andrew'', [''andy'', ''drew'']),
     (''sean'', [''shawn'']), (''nathaniel'', [''nate'', ''nathan'']), (''terry'', [''terry'']),
     (''max'', [''max'']), (''oscar'', [''oscar'']), (''keith'', [''keith''])]"

definition variant_in :: "(string \<times> string list) list \<Rightarrow> string \<Rightarrow> string \<Rightarrow> bool" where
  "variant_in table word1 word2 =
     (case map_of table word1 of Some variants \<Rightarrow> word2 \<in> set variants | None \<Rightarrow> False)"

definition check_name_variations :: "string \<Rightarrow> string \<Rightarrow> bool" where
  "check_name_variations name1 name2 =
     (let words1 = split (lower name1); words2 = split (lower name2);
          listed = (\<lambda>table. list_ex (\<lambda>word1. list_ex (\<lambda>word2.
                      variant_in table word1 word2 \<or> variant_in table word2 word1) words2) words1)
      in if listed nicknames then True else listed common_variations)"

text \<open>\<open>_clean_address\<close>: punctuation becomes a space, the road-type words are dropped.\<close>

definition common_words :: "string list" where
  "common_words =
     [''street'', ''st'', ''avenue'', ''ave'', ''road'', ''rd'', ''drive'', ''dr'', ''lane'', ''ln'']"

definition clean_address :: "string \<Rightarrow> string" where
  "clean_address address =
     (let cleaned = map (\<lambda>c. if word_char c \<or> isspace c then c else CHR '' '') address;
          cleaned = join '' '' (split cleaned);
          words = split cleaned;
          filtered_words = filter (\<lambda>word. lower word \<notin> set common_words) words
      in join '' '' filtered_words)"

text \<open>\<open>_check_partial_address_match\<close>: the same first number and similar other words.\<close>

definition check_partial_address_match :: "string \<Rightarrow> string \<Rightarrow> bool" where
  "check_partial_address_match addr1 addr2 =
     (let words1 = split addr1; words2 = split addr2
      in if abs (int (length words1) - int (length words2)) > 3 then False
         else case (find isdigit words1, find isdigit words2) of
                (Some number1, Some number2) \<Rightarrow>
                  if number1 = number2
                  then let addr1_without_number = join '' '' (filter (\<lambda>w. w \<noteq> number1) words1);
                           addr2_without_number = join '' '' (filter (\<lambda>w. w \<noteq> number2) words2)
                       in float_ge (word_similarity addr1_without_number addr2_without_number)
                            (7 / 10)
                  else False
              | _ \<Rightarrow> False)"

section \<open>Match strategies\<close>

text \<open>\<open>_fuzzy_match_general\<close>\<close>

definition fuzzy_match_general :: "string \<Rightarrow> string \<Rightarrow> rat \<Rightarrow> bool" where
  "fuzzy_match_general str1 str2 threshold =
     (let overall_similarity =
            float_plus
              (float_plus (float_times (word_similarity str1 str2) (5 / 10))
                 (float_times (char_similarity str1 str2) (3 / 10)))
              (float_times (abbreviation_similarity str1 str2) (2 / 10))
      in float_ge overall_similarity threshold)"

text \<open>\<open>_fuzzy_match_name\<close>\<close>

definition fuzzy_match_name :: "string \<Rightarrow> string \<Rightarrow> rat \<Rightarrow> bool" where
  "fuzzy_match_name str1 str2 threshold =
     (let words1 = split str1; words2 = split str2
      in if length words1 = 1 \<and> length words2 = 1 then fuzzy_match_general str1 str2 threshold
         else if length words1 = length words2
                 \<and> length (filter (\<lambda>(w1, w2). w1 = w2) (zip words1 words2)) = length words1
         then True
         else let word_sim = word_similarity str1 str2
              in if float_ge word_sim threshold then True
                 else let char_sim = char_similarity str1 str2
                      in if float_ge char_sim threshold then True
                         else if check_name_variations str1 str2 then True
                         else float_ge
                                (float_plus (float_times word_sim (6 / 10))
                                   (float_times char_sim (4 / 10)))
                                threshold)"

text \<open>\<open>_fuzzy_match_address\<close>\<close>

definition fuzzy_match_address :: "string \<Rightarrow> string \<Rightarrow> rat \<Rightarrow> bool" where
  "fuzzy_match_address str1 str2 threshold =
     (let str1_clean = clean_address str1; str2_clean = clean_address str2
      in if str1_clean = str2_clean then True
         else let word_sim = word_similarity str1_clean str2_clean;
                  char_sim = char_similarity str1_clean str2_clean
              in if float_ge word_sim threshold then True
                 else if check_partial_address_match str1_clean str2_clean then True
                 else float_ge
                        (float_plus (float_times word_sim (7 / 10))
                           (float_times char_sim (3 / 10)))
                        threshold)"

text \<open>
  The first step of \<open>_fuzzy_match\<close>: lower case, runs of white space collapsed to one
  space, none at either end.
\<close>

definition normalize_text :: "string \<Rightarrow> string" where
  "normalize_text s = join '' '' (split (lower s))"

text \<open>
  \<open>_fuzzy_match\<close>. The arguments are whatever the caller passes: an object that is
  false (the empty string, \<open>None\<close>) ends the comparison before any method is called
  on it, any other object that is not a string has no \<open>lower\<close>. A match type other
  than \<open>name\<close> and \<open>address\<close> is the general one.
\<close>

definition fuzzy_match :: "pyval \<Rightarrow> pyval \<Rightarrow> rat \<Rightarrow> string \<Rightarrow> exn + bool" where
  "fuzzy_match v1 v2 threshold match_type =
     (if \<not> truthy v1 \<or> \<not> truthy v2 then Inr False
      else and_then (str_method v1 ''lower'') (\<lambda>s1.
           and_then (str_method v2 ''lower'') (\<lambda>s2.
             let str1 = normalize_text s1; str2 = normalize_text s2
             in if str1 = str2 then Inr True
                else if normalize_string str1 = normalize_string str2 then Inr True
                else if match_type = ''name'' then Inr (fuzzy_match_name str1 str2 threshold)
                else if match_type = ''address''
                then Inr (fuzzy_match_address str1 str2 threshold)
                else Inr (fuzzy_match_general str1 str2 threshold))))"

text \<open>
  The abbreviation test as the specification words it, for comparison with
  \<open>is_abbreviation\<close>: the single token is a part of the first word of the longer
  string, or it is the acronym made of the first letter of each word.
\<close>

definition spec_abbreviation_test :: "string \<Rightarrow> string \<Rightarrow> bool" where
  "spec_abbreviation_test token full_text =
     (let words = split full_text
      in contains (hd words) token \<or> token = map hd words)"

section \<open>The runtime library\<close>

text \<open>
  Functions of the Python library that the code calls and that are taken as given:
  \<open>strptime text fmt\<close> is \<open>datetime.strptime(text, fmt).strftime('%Y-%m-%d')\<close>,
  \<open>json_loads\<close> is \<open>json.loads\<close>, and \<open>salary_float text\<close> is \<open>float\<close> of the
  text from which \<open>replace\<close> has removed every dollar sign, comma, pound sign and euro
  sign, each \<open>None\<close> where the library raises; \<open>format_value\<close> is the text an
  f-string puts for a value that is not a string.
\<close>

record platform =
  strptime :: "string \<Rightarrow> string \<Rightarrow> string option"
  json_loads :: "string \<Rightarrow> pyval option"
  salary_float :: "string \<Rightarrow> pyfloat option"
  format_value :: "pyval \<Rightarrow> string"

text \<open>\<open>_normalize_date\<close>: a value that is not a string comes back as it is.\<close>

definition date_formats :: "string list" where
  "date_formats =
     [''%Y-%m-%d'', ''%d/%m/%Y'', ''%m/%d/%Y'', ''%d-%m-%Y'', ''%m-%d-%Y'', ''%d %m %Y'',
      ''%m %d %Y'', ''%Y/%m/%d'', ''%Y/%d/%m'']"

fun first_parse :: "platform \<Rightarrow> string \<Rightarrow> string list \<Rightarrow> string option" where
  "first_parse P text [] = None"
| "first_parse P text (fmt # fmts) =
     (case strptime P text fmt of Some d \<Rightarrow> Some d | None \<Rightarrow> first_parse P text fmts)"

definition normalize_date :: "platform \<Rightarrow> pyval \<Rightarrow> pyval" where
  "normalize_date P date_str =
     (case date_str of
        PStr s \<Rightarrow>
          (let cleaned =
                 strip (map (\<lambda>c. if word_char c \<or> isspace c \<or> c = CHR ''-'' then c else CHR '' '') s)
           in case first_parse P cleaned date_formats of
                Some d \<Rightarrow> PStr d
              | None \<Rightarrow> PStr cleaned)
      | _ \<Rightarrow> date_str)"

section \<open>Validation engine: the rule-based path\<close>

record discrepancy =
  field :: string
  document_value :: pyval
  user_value :: pyval
  severity :: string

text \<open>
  An entry of the \<open>discrepancies\<close> list of a result: a discrepancy, or the bare text
  that the error result carries.
\<close>

datatype finding = Mismatch discrepancy | Remark string

record validation_result =
  overall_match :: bool
  confidence_score :: int
  discrepancies :: "finding list"
  warnings :: "string list"
  validation_details :: pydict

definition initial_result :: validation_result where
  "initial_result =
     \<lparr>overall_match = True, confidence_score = 100, discrepancies = [], warnings = [],
      validation_details = []\<rparr>"

definition with_severity :: "string \<Rightarrow> discrepancy list \<Rightarrow> nat" where
  "with_severity s ds = length (filter (\<lambda>d. severity d = s) ds)"

text \<open>The penalty of \<open>_validate_id_proof\<close> and \<open>_validate_address_proof\<close>.\<close>

definition penalty_by_count :: "discrepancy list \<Rightarrow> int" where
  "penalty_by_count ds =
     int (with_severity ''high'' ds) * 30 + int (with_severity ''medium'' ds) * 20
     + int (length ds) * 10"

text \<open>The penalty of \<open>_validate_employment_proof\<close>.\<close>

definition penalty_with_low :: "discrepancy list \<Rightarrow> int" where
  "penalty_with_low ds =
     int (with_severity ''high'' ds) * 30 + int (with_severity ''medium'' ds) * 20
     + int (with_severity ''low'' ds) * 10 + int (length ds) * 5"

text \<open>The closing block of each validator: ``update overall match and confidence score''.\<close>

definition update_match_and_score ::
    "(discrepancy list \<Rightarrow> int) \<Rightarrow> discrepancy list \<Rightarrow> validation_result" where
  "update_match_and_score penalty ds =
     (if ds \<noteq> []
      then initial_result
             \<lparr>overall_match := False, confidence_score := max 0 (100 - penalty ds),
              discrepancies := map Mismatch ds\<rparr>
      else initial_result)"

text \<open>\<open>record.get(key, '').strip().lower()\<close>\<close>

definition stripped_lower :: "pydict \<Rightarrow> string \<Rightarrow> exn + string" where
  "stripped_lower record key =
     and_then (str_method (get_or record key (PStr [])) ''strip'') (\<lambda>s. Inr (lower (strip s)))"

text \<open>
  The comparison of one field: skipped when either side is empty, a discrepancy when
  the fuzzy match fails.
\<close>

definition compare_field ::
    "string \<Rightarrow> string \<Rightarrow> string \<Rightarrow> rat \<Rightarrow> string \<Rightarrow> string \<Rightarrow> exn + discrepancy list" where
  "compare_field name doc_value usr_value threshold match_type sev =
     (if doc_value \<noteq> [] \<and> usr_value \<noteq> []
      then and_then (fuzzy_match (PStr doc_value) (PStr usr_value) threshold match_type)
             (\<lambda>matched.
                Inr (if \<not> matched
                     then [\<lparr>field = name, document_value = PStr doc_value,
                            user_value = PStr usr_value, severity = sev\<rparr>]
                     else []))
      else Inr [])"

text \<open>\<open>_validate_id_proof\<close>\<close>

definition validate_id_proof :: "platform \<Rightarrow> pydict \<Rightarrow> pydict \<Rightarrow> exn + validation_result" where
  "validate_id_proof P extracted_data user_data =
     and_then
       (if truthy (get user_data ''name'')
        then and_then (str_method (get_or user_data ''name'' (PStr [])) ''split'')
               (\<lambda>name. case split name of
                          [] \<Rightarrow> Inl (IndexError ''list index out of range'')
                        | w # ws \<Rightarrow> Inr (lower w))
        else Inr []) (\<lambda>user_first_name.
     and_then (str_method (get_or user_data ''name'' (PStr [])) ''split'') (\<lambda>name.
     let user_last_name =
           (if length (split name) > 1 then lower (join '' '' (tl (split name))) else [])
     in
     and_then (stripped_lower extracted_data ''first_name'') (\<lambda>doc_first_name.
     and_then (stripped_lower extracted_data ''last_name'') (\<lambda>doc_last_name.
     and_then (compare_field ''first_name'' doc_first_name user_first_name (8 / 10) ''name''
                 ''medium'') (\<lambda>first_name_found.
     and_then (compare_field ''last_name'' doc_last_name user_last_name (8 / 10) ''name''
                 ''medium'') (\<lambda>last_name_found.
     let doc_dob = get_or extracted_data ''dob'' (PStr []);
         user_dob = get_or user_data ''dob'' (PStr []);
         dob_found =
           (if truthy doc_dob \<and> truthy user_dob
               \<and> \<not> py_eq (normalize_date P doc_dob) (normalize_date P user_dob)
            then [\<lparr>field = ''date_of_birth'', document_value = doc_dob, user_value = user_dob,
                   severity = ''high''\<rparr>]
            else [])
     in
     and_then (stripped_lower extracted_data ''nationality'') (\<lambda>doc_nationality.
     and_then (stripped_lower user_data ''nationality'') (\<lambda>user_nationality.
     and_then (compare_field ''nationality'' doc_nationality user_nationality (8 / 10)
                 ''general'' ''low'') (\<lambda>nationality_found.
     Inr (update_match_and_score penalty_by_count
            (first_name_found @ last_name_found @ dob_found @ nationality_found)))))))))))"

text \<open>\<open>_validate_address_proof\<close>\<close>

definition validate_address_proof :: "pydict \<Rightarrow> pydict \<Rightarrow> exn + validation_result" where
  "validate_address_proof extracted_data user_data =
     and_then (stripped_lower extracted_data ''full_address'') (\<lambda>doc_address.
     and_then (stripped_lower user_data ''address'') (\<lambda>user_address.
     and_then (compare_field ''address'' doc_address user_address (8 / 10) ''address''
                 ''high'') (\<lambda>address_found.
     and_then (stripped_lower extracted_data ''account_holder_name'') (\<lambda>account_holder.
     and_then (stripped_lower user_data ''name'') (\<lambda>user_name.
     and_then (compare_field ''account_holder_name'' account_holder user_name (8 / 10) ''name''
                 ''high'') (\<lambda>holder_found.
     Inr (update_match_and_score penalty_by_count (address_found @ holder_found))))))))"

text \<open>\<open>_validate_employment_proof\<close>\<close>

definition validate_employment_proof :: "pydict \<Rightarrow> pydict \<Rightarrow> exn + validation_result" where
  "validate_employment_proof extracted_data user_data =
     and_then (stripped_lower extracted_data ''employer_name'') (\<lambda>doc_employer.
     and_then (stripped_lower user_data ''employer'') (\<lambda>user_employer.
     and_then (compare_field ''employer'' doc_employer user_employer (7 / 10) ''general''
                 ''medium'') (\<lambda>employer_found.
     and_then (stripped_lower extracted_data ''employee_name'') (\<lambda>doc_employee.
     and_then (stripped_lower user_data ''name'') (\<lambda>user_name.
     and_then (compare_field ''employee_name'' doc_employee user_name (8 / 10) ''name''
                 ''high'') (\<lambda>employee_found.
     and_then (stripped_lower extracted_data ''position'') (\<lambda>doc_position.
     and_then (stripped_lower user_data ''occupation'') (\<lambda>user_occupation.
     and_then (compare_field ''position'' doc_position user_occupation (6 / 10) ''general''
                 ''low'') (\<lambda>position_found.
     Inr (update_match_and_score penalty_with_low
            (employer_found @ employee_found @ position_found)))))))))))"

text \<open>
  \<open>_validate_with_rules\<close>: the validator of the document type, the untouched initial
  result for any other type, and the error result when a validator raises.
\<close>

definition validate_with_rules ::
    "platform \<Rightarrow> pydict \<Rightarrow> pydict \<Rightarrow> string \<Rightarrow> validation_result" where
  "validate_with_rules P extracted_data user_data document_type =
     (case (if document_type = ''id_proof'' then validate_id_proof P extracted_data user_data
            else if document_type = ''address_proof''
            then validate_address_proof extracted_data user_data
            else if document_type = ''employment_proof''
            then validate_employment_proof extracted_data user_data
            else Inr initial_result) of
        Inr validation_results \<Rightarrow> validation_results
      | Inl e \<Rightarrow>
          \<lparr>overall_match = False, confidence_score = 0,
           discrepancies = [Remark ''Validation error occurred''],
           warnings = [''Validation failed: '' @ exn_message e], validation_details = []\<rparr>)"

text \<open>The number of discrepancies of a given severity in a result.\<close>

definition severity_count :: "string \<Rightarrow> finding list \<Rightarrow> int" where
  "severity_count s fs =
     int (length (filter (\<lambda>f. case f of Mismatch d \<Rightarrow> severity d = s | Remark r \<Rightarrow> False) fs))"

text \<open>
  The confidence score as the specification words it, with the weight of the total
  count (5 or 10) as a parameter: 100 minus the penalty, not below 0.
\<close>

definition spec_confidence_score :: "int \<Rightarrow> finding list \<Rightarrow> int" where
  "spec_confidence_score per_discrepancy fs =
     max 0 (100 - (severity_count ''high'' fs * 30 + severity_count ''medium'' fs * 20
                   + severity_count ''low'' fs * 10 + int (length fs) * per_discrepancy))"

text \<open>A runtime library for worked examples: no date parses, no text is JSON or a number.\<close>

definition bare_platform :: platform where
  "bare_platform =
     \<lparr>strptime = (\<lambda>text fmt. None), json_loads = (\<lambda>text. None), salary_float = (\<lambda>text. None),
      format_value = (\<lambda>v. ''?'')\<rparr>"

section \<open>Risk scorer\<close>

text \<open>\<open>x > n\<close> for an integer literal \<open>n\<close>: only numbers are ordered against it.\<close>

definition greater_than :: "pyval \<Rightarrow> int \<Rightarrow> exn + bool" where
  "greater_than v n =
     (case number v of
        Some x \<Rightarrow> Inr (float_greater x (Finite (of_int n)))
      | None \<Rightarrow>
          Inl (TypeError (quoted ''>'' @ '' not supported between instances of ''
                          @ quoted (type_name v) @ '' and '' @ quoted ''int'')))"

text \<open>
  \<open>key in container\<close> for a string \<open>key\<close>: a key of a dictionary, an element of a
  list, a part of a string; any other object is not iterable.
\<close>

definition is_in :: "string \<Rightarrow> pyval \<Rightarrow> exn + bool" where
  "is_in key container =
     (case container of
        PDict d \<Rightarrow> Inr (has_key d key)
      | PList xs \<Rightarrow> Inr (list_ex (\<lambda>x. x = PStr key) xs)
      | PStr s \<Rightarrow> Inr (contains s key)
      | _ \<Rightarrow> Inl (TypeError (''argument of type '' @ quoted (type_name container)
                             @ '' is not iterable'')))"

definition required_docs :: "string list" where
  "required_docs = [''id_proof'', ''address_proof'', ''employment_proof'']"

text \<open>\<open>[doc for doc in required_docs if doc not in documents]\<close>\<close>

fun missing_from :: "pyval \<Rightarrow> string list \<Rightarrow> exn + string list" where
  "missing_from documents [] = Inr []"
| "missing_from documents (doc # docs) =
     and_then (is_in doc documents) (\<lambda>present.
     and_then (missing_from documents docs) (\<lambda>rest.
     Inr (if \<not> present then doc # rest else rest)))"

text \<open>\<open>calculate_estimated_risk\<close>\<close>

definition calculate_estimated_risk :: "pydict \<Rightarrow> exn + string" where
  "calculate_estimated_risk customer_data =
     (let risk_score = (0 :: int);
          risk_score = (if truthy (get customer_data ''pep_status'')
                        then risk_score + 50 else risk_score);
          annual_income = get customer_data ''annual_income''
      in
      and_then
        (if annual_income \<noteq> PNone
         then and_then (greater_than annual_income 500000) (\<lambda>above.
                if above then Inr (risk_score + 30)
                else and_then (greater_than annual_income 200000) (\<lambda>above.
                       Inr (if above then risk_score + 15 else risk_score)))
         else Inr risk_score) (\<lambda>risk_score.
      let risk_score = (if truthy (get customer_data ''business_name'')
                        then risk_score + 20 else risk_score)
      in
      and_then
        (if truthy (get customer_data ''position'')
         then and_then (str_method (get_or customer_data ''position'' (PStr [])) ''lower'')
                (\<lambda>position.
                   Inr (if contains (lower position) ''government''
                        then risk_score + 25 else risk_score))
         else Inr risk_score) (\<lambda>risk_score.
      and_then (missing_from (get_or customer_data ''documents'' (PDict [])) required_docs)
        (\<lambda>missing_docs.
      let risk_score = risk_score + int (length missing_docs) * 10
      in Inr (if risk_score \<ge> 50 then ''High''
              else if risk_score \<ge> 25 then ''Medium''
              else ''Low'')))))"

text \<open>The order of the risk bands: Low, Medium, High.\<close>

definition band_rank :: "string \<Rightarrow> nat" where
  "band_rank band = (if band = ''High'' then 2 else if band = ''Medium'' then 1 else 0)"

text \<open>\<open>determine_customer_type\<close>\<close>

definition determine_customer_type :: "pydict \<Rightarrow> exn + string" where
  "determine_customer_type customer_data =
     (if truthy (get customer_data ''pep_status'') then Inr ''PEP''
      else if truthy (get customer_data ''business_name'') then Inr ''Business''
      else if truthy (get customer_data ''university'') then Inr ''Student''
      else if py_eq (get customer_data ''occupation'') (PStr ''Freelance Developer'')
      then Inr ''Freelancer''
      else if get customer_data ''annual_income'' \<noteq> PNone
      then and_then (greater_than (get_or customer_data ''annual_income'' (PInt 0)) 200000)
             (\<lambda>above. Inr (if above then ''High_Net_Worth'' else ''Individual''))
      else Inr ''Individual'')"

section \<open>Enrichment\<close>

text \<open>
  The world outside the core. \<open>find_document doc_type doc_id\<close> is the first file of the
  documents directory whose name starts with the type and the identifier, with what the
  extraction from it returns, or \<open>None\<close> when there is no such file.
  \<open>fresh_customer_id\<close> and \<open>fresh_case_id\<close> are the identifiers the case store
  generates, \<open>agent_id\<close> is the configured identifier of each agent, \<open>invoke_agent\<close>
  the agent runtime, and \<open>now\<close> the clock.
\<close>

datatype extraction = Extracted pyval | Failed string

datatype request = Structured | Simple

text \<open>
  What a call of the agent runtime comes to: an exception with its message, or the text
  gathered from the stream of events of the reply.
\<close>

datatype call_outcome = Raises string | Replies string

record world =
  find_document :: "string \<Rightarrow> pyval \<Rightarrow> (string \<times> extraction) option"
  fresh_customer_id :: string
  fresh_case_id :: int
  agent_id :: "string \<Rightarrow> string option"
  invoke_agent :: "string \<Rightarrow> request \<Rightarrow> pydict \<Rightarrow> call_outcome"
  now :: string

text \<open>The text an f-string puts for a value.\<close>

definition formatted :: "platform \<Rightarrow> pyval \<Rightarrow> string" where
  "formatted P v = (case v of PStr s \<Rightarrow> s | _ \<Rightarrow> format_value P v)"

text \<open>
  \<open>parse_salary\<close>: nothing for an empty salary, the float that the cleaned text
  converts to, nothing when the conversion raises. An object that is true and not a
  string has no \<open>replace\<close>, which the function does not catch.
\<close>

definition parse_salary :: "platform \<Rightarrow> pyval \<Rightarrow> exn + pyval" where
  "parse_salary P salary_str =
     (if \<not> truthy salary_str then Inr PNone
      else and_then (str_method salary_str ''replace'') (\<lambda>s.
             Inr (case salary_float P s of Some x \<Rightarrow> PFloat x | None \<Rightarrow> PNone)))"

text \<open>The dictionary with which \<open>enhance_customer_data_with_documents\<close> starts.\<close>

definition comprehensive :: "world \<Rightarrow> pydict \<Rightarrow> pydict" where
  "comprehensive W customer_data =
     [(''name'', get_or customer_data ''name'' (PStr [])),
      (''email'', get_or customer_data ''email'' (PStr [])),
      (''phone'', get_or customer_data ''phone'' (PStr [])),
      (''address'', get_or customer_data ''address'' (PStr [])),
      (''customer_id'', get_or customer_data ''customer_id'' (PStr [])),
      (''dob'', get_or customer_data ''dob'' (PStr [])),
      (''nationality'', get_or customer_data ''nationality'' (PStr [])),
      (''occupation'', get_or customer_data ''occupation'' (PStr [])),
      (''employer'', get_or customer_data ''employer'' (PStr [])),
      (''annual_income'', get customer_data ''annual_income''),
      (''source_of_funds'', get_or customer_data ''source_of_funds'' (PStr [])),
      (''business_name'', get_or customer_data ''business_name'' (PStr [])),
      (''position'', get_or customer_data ''position'' (PStr [])),
      (''university'', get_or customer_data ''university'' (PStr [])),
      (''pep_status'', get_or customer_data ''pep_status'' (PBool False)),
      (''documents'', get_or customer_data ''documents'' (PDict [])),
      (''document_details'', PDict []),
      (''submission_time'', PStr (now W)),
      (''processing_status'', PStr ''submitted'')]"

text \<open>\<open>comprehensive_data["document_details"][doc_type] = entry\<close>\<close>

definition note_document :: "pydict \<Rightarrow> string \<Rightarrow> pydict \<Rightarrow> pydict" where
  "note_document comprehensive_data doc_type entry =
     (case get comprehensive_data ''document_details'' of
        PDict details \<Rightarrow>
          put comprehensive_data ''document_details'' (PDict (put details doc_type (PDict entry)))
      | _ \<Rightarrow> comprehensive_data)"

text \<open>The name an ID proof carries: first and last name, formatted and stripped.\<close>

definition extracted_name :: "platform \<Rightarrow> pydict \<Rightarrow> string" where
  "extracted_name P extracted =
     strip (formatted P (get_or extracted ''first_name'' (PStr []))
            @ '' '' @ formatted P (get_or extracted ''last_name'' (PStr [])))"

text \<open>
  The body of the loop over the attached documents: one document, its file looked up and
  its extraction folded into the record.
\<close>

definition absorb_document ::
    "platform \<Rightarrow> world \<Rightarrow> string \<times> pyval \<Rightarrow> pydict \<Rightarrow> exn + pydict" where
  "absorb_document P W doc comprehensive_data =
     (let doc_type = fst doc; doc_id = snd doc
      in case find_document W doc_type doc_id of
           None \<Rightarrow> Inr comprehensive_data
         | Some (filename, Failed error) \<Rightarrow>
             Inr (note_document comprehensive_data doc_type
                    [(''document_id'', doc_id), (''filename'', PStr filename),
                     (''extracted_data'', PNone),
                     (''validation_status'', PStr ''extraction_failed''),
                     (''error'', PStr error)])
         | Some (filename, Extracted extracted_data) \<Rightarrow>
             (let noted = note_document comprehensive_data doc_type
                            [(''document_id'', doc_id), (''filename'', PStr filename),
                             (''extracted_data'', extracted_data),
                             (''validation_status'', PStr ''pending'')]
              in if doc_type = ''id_proof''
                 then and_then (dict_method extracted_data ''get'') (\<lambda>extracted.
                        let full_name = extracted_name P extracted;
                            name = (if full_name \<noteq> [] then PStr full_name
                                    else get noted ''name'');
                            dob = py_or (get extracted ''dob'') (get noted ''dob'');
                            nationality =
                              py_or (get extracted ''nationality'') (get noted ''nationality'')
                        in Inr (put (put (put noted ''name'' name) ''dob'' dob)
                                  ''nationality'' nationality))
                 else if doc_type = ''address_proof''
                 then and_then (dict_method extracted_data ''get'') (\<lambda>extracted.
                        Inr (put noted ''address''
                               (py_or (get extracted ''full_address'') (get noted ''address''))))
                 else if doc_type = ''employment_proof''
                 then and_then (dict_method extracted_data ''get'') (\<lambda>extracted.
                        let employer =
                              py_or (get extracted ''employer_name'') (get noted ''employer'');
                            occupation =
                              py_or (get extracted ''position'') (get noted ''occupation'')
                        in and_then (parse_salary P (get extracted ''annual_salary''))
                             (\<lambda>salary.
                                Inr (put (put (put noted ''employer'' employer)
                                            ''occupation'' occupation)
                                       ''annual_income''
                                       (py_or salary (get noted ''annual_income'')))))
                 else Inr noted))"

fun absorb_documents ::
    "platform \<Rightarrow> world \<Rightarrow> (string \<times> pyval) list \<Rightarrow> pydict \<Rightarrow> exn + pydict" where
  "absorb_documents P W [] comprehensive_data = Inr comprehensive_data"
| "absorb_documents P W (doc # docs) comprehensive_data =
     and_then (absorb_document P W doc comprehensive_data) (absorb_documents P W docs)"

text \<open>\<open>enhance_customer_data_with_documents\<close>\<close>

definition enhance_customer_data_with_documents ::
    "platform \<Rightarrow> world \<Rightarrow> pydict \<Rightarrow> exn + pydict" where
  "enhance_customer_data_with_documents P W customer_data =
     and_then (dict_method (get_or customer_data ''documents'' (PDict [])) ''items'')
       (\<lambda>documents.
     and_then (absorb_documents P W documents (comprehensive W customer_data))
       (\<lambda>comprehensive_data.
     and_then (determine_customer_type comprehensive_data) (\<lambda>customer_type.
     let comprehensive_data = put comprehensive_data ''customer_type'' (PStr customer_type)
     in and_then (calculate_estimated_risk comprehensive_data) (\<lambda>risk.
        Inr (put comprehensive_data ''estimated_risk_level'' (PStr risk))))))"

text \<open>
  The score of \<open>calculate_estimated_risk\<close> without the terms for the PEP flag and the
  business name, and the band of a score.
\<close>

definition risk_points :: "pydict \<Rightarrow> exn + int" where
  "risk_points customer_data =
     (let annual_income = get customer_data ''annual_income''
      in
      and_then
        (if annual_income \<noteq> PNone
         then and_then (greater_than annual_income 500000) (\<lambda>above.
                if above then Inr 30
                else and_then (greater_than annual_income 200000) (\<lambda>above.
                       Inr (if above then 15 else 0)))
         else Inr 0) (\<lambda>income_points.
      and_then
        (if truthy (get customer_data ''position'')
         then and_then (str_method (get_or customer_data ''position'' (PStr [])) ''lower'')
                (\<lambda>position. Inr (if contains (lower position) ''government'' then 25 else 0))
         else Inr 0) (\<lambda>position_points.
      and_then (missing_from (get_or customer_data ''documents'' (PDict [])) required_docs)
        (\<lambda>missing_docs.
           Inr (income_points + position_points + int (length missing_docs) * 10)))))"

definition band_of :: "int \<Rightarrow> string" where
  "band_of risk_score =
     (if risk_score \<ge> 50 then ''High'' else if risk_score \<ge> 25 then ''Medium'' else ''Low'')"

section \<open>Submission pipeline\<close>

text \<open>
  The case store as far as the pipeline writes it: the row of the case and its
  processing steps, in the order in which they were added.
\<close>

record case_row =
  case_id :: int
  status :: pyval
  final_risk_level :: pyval
  validation_status :: pyval
  compliance_status :: pyval
  completion_time :: pyval
  pep_status :: pyval

record processing_step =
  step_name :: string
  step_agent_id :: string
  agent_type :: string
  step_status :: string
  error_message :: string

record store =
  row :: case_row
  steps :: "processing_step list"

text \<open>\<open>get_or_create_case\<close>: the case of this customer if the store has one, else a new row.\<close>

definition get_or_create_case :: "world \<Rightarrow> store option \<Rightarrow> pydict \<Rightarrow> store" where
  "get_or_create_case W existing customer_data =
     (case existing of
        Some S \<Rightarrow> S
      | None \<Rightarrow>
          \<lparr>row = \<lparr>case_id = fresh_case_id W, status = PStr ''submitted'',
                   final_risk_level = PNone, validation_status = PNone,
                   compliance_status = PNone, completion_time = PNone,
                   pep_status = get_or customer_data ''pep_status'' (PBool False)\<rparr>,
           steps = []\<rparr>)"

text \<open>\<open>update_case_status\<close>: an argument left out is \<open>None\<close>.\<close>

definition update_case_status ::
    "pyval \<Rightarrow> pyval \<Rightarrow> pyval \<Rightarrow> pyval \<Rightarrow> pyval \<Rightarrow> pyval \<Rightarrow> store \<Rightarrow> store" where
  "update_case_status new_status new_risk_level new_validation new_compliance new_completion
       new_pep S =
     S\<lparr>row :=
         (row S)
           \<lparr>status := (if truthy new_status then new_status else status (row S)),
            final_risk_level :=
              (if truthy new_risk_level then new_risk_level else final_risk_level (row S)),
            validation_status :=
              (if truthy new_validation then new_validation else validation_status (row S)),
            compliance_status :=
              (if truthy new_compliance then new_compliance else compliance_status (row S)),
            completion_time :=
              (if truthy new_completion then new_completion else completion_time (row S)),
            pep_status := (if new_pep \<noteq> PNone then new_pep else pep_status (row S))\<rparr>\<rparr>"

text \<open>\<open>add_processing_step\<close>, and \<open>update_processing_step\<close> on the step just added.\<close>

definition add_processing_step :: "string \<Rightarrow> string \<Rightarrow> string \<Rightarrow> store \<Rightarrow> store" where
  "add_processing_step name agent type S =
     S\<lparr>steps := steps S @ [\<lparr>step_name = name, step_agent_id = agent, agent_type = type,
                             step_status = ''pending'', error_message = []\<rparr>]\<rparr>"

definition update_processing_step :: "string \<Rightarrow> string \<Rightarrow> store \<Rightarrow> store" where
  "update_processing_step new_status message S =
     (case rev (steps S) of
        [] \<Rightarrow> S
      | step # earlier \<Rightarrow>
          S\<lparr>steps := rev earlier
                @ [step\<lparr>step_status := (if new_status \<noteq> [] then new_status else step_status step),
                        error_message := (if message \<noteq> [] then message
                                          else error_message step)\<rparr>]\<rparr>)"

text \<open>
  The step record of a stage exists when the case identifier, the step name and the agent
  type are all given; without it the stage writes nothing.
\<close>

definition finish_step :: "bool \<Rightarrow> string \<Rightarrow> string \<Rightarrow> store \<Rightarrow> store" where
  "finish_step tracked new_status message S =
     (if tracked then update_processing_step new_status message S else S)"

text \<open>\<open>try_simple_input_format\<close>\<close>

definition try_simple_input_format ::
    "world \<Rightarrow> string \<Rightarrow> pydict \<Rightarrow> bool \<Rightarrow> store \<Rightarrow> pyval \<times> store" where
  "try_simple_input_format W agent input_data tracked S =
     (case and_then (dict_method (get_or input_data ''customer_data'' (PDict [])) ''get'')
             (\<lambda>customer_data.
                dict_method (get_or customer_data ''documents'' (PDict [])) ''keys'') of
        Inl e \<Rightarrow>
          (PDict [(''status'', PStr ''error''), (''error'', PStr (exn_message e)),
                  (''agent_id'', PStr agent), (''input_format'', PStr ''simple'')],
           finish_step tracked ''error'' (exn_message e) S)
      | Inr documents \<Rightarrow>
          (case invoke_agent W agent Simple input_data of
             Raises e \<Rightarrow>
               (PDict [(''status'', PStr ''error''), (''error'', PStr e),
                       (''agent_id'', PStr agent), (''input_format'', PStr ''simple'')],
                finish_step tracked ''error'' e S)
           | Replies response_body \<Rightarrow>
               if strip response_body \<noteq> []
               then (PDict [(''status'', PStr ''success''),
                            (''response_text'', PStr response_body),
                            (''raw_response'', PStr response_body),
                            (''input_format'', PStr ''simple'')],
                     finish_step tracked ''success'' [] S)
               else (PDict [(''status'', PStr ''error''),
                            (''message'',
                             PStr ''Agent returned empty response with both input formats''),
                            (''agent_id'', PStr agent)],
                     finish_step tracked ''error''
                       ''Agent returned empty response with both input formats'' S)))"

text \<open>
  \<open>invoke_bedrock_agent\<close>: one stage. A failure of the call is the error dictionary the
  stage returns; nothing is raised to the pipeline.
\<close>

definition invoke_bedrock_agent ::
    "platform \<Rightarrow> world \<Rightarrow> string option \<Rightarrow> pydict \<Rightarrow> string \<Rightarrow> string \<Rightarrow> store
      \<Rightarrow> pyval \<times> store" where
  "invoke_bedrock_agent P W configured input_data name type S =
     (case configured of
        None \<Rightarrow>
          (PDict [(''status'', PStr ''error''), (''message'', PStr ''Agent ID not configured'')],
           S)
      | Some agent \<Rightarrow>
          if agent = []
          then (PDict [(''status'', PStr ''error''),
                       (''message'', PStr ''Agent ID not configured'')], S)
          else let tracked = (case_id (row S) \<noteq> 0 \<and> name \<noteq> [] \<and> type \<noteq> []);
                   S = (if tracked then add_processing_step name agent type S else S)
               in case invoke_agent W agent Structured input_data of
                    Raises e \<Rightarrow>
                      (PDict [(''status'', PStr ''error''), (''error'', PStr e),
                              (''agent_id'', PStr agent), (''timestamp'', PStr (now W))],
                       finish_step tracked ''error'' e S)
                  | Replies response_body \<Rightarrow>
                      if strip response_body = []
                      then try_simple_input_format W agent input_data tracked S
                      else (case json_loads P response_body of
                              Some result \<Rightarrow> result
                            | None \<Rightarrow>
                                PDict [(''status'', PStr ''success''),
                                       (''response_text'', PStr response_body),
                                       (''raw_response'', PStr response_body)],
                            finish_step tracked ''success'' [] S))"

text \<open>\<open>extract_status_from_response\<close>\<close>

definition extract_status_from_response :: "pyval \<Rightarrow> string \<Rightarrow> pyval" where
  "extract_status_from_response response status_key =
     (case response of
        PDict d \<Rightarrow> get_or d status_key (PStr ''unknown'')
      | PStr s \<Rightarrow>
          if contains (lower s) ''complete'' \<or> contains (lower s) ''success''
          then PStr ''complete''
          else if contains (lower s) ''incomplete'' \<or> contains (lower s) ''pending''
          then PStr ''incomplete''
          else if contains (lower s) ''error'' \<or> contains (lower s) ''failed''
          then PStr ''error''
          else PStr ''unknown''
      | _ \<Rightarrow> PStr ''unknown'')"

text \<open>
  The reading of a parsed \<open>response_text\<close> inside \<open>extract_risk_level\<close>: whatever
  goes wrong there is swallowed and nothing is found.
\<close>

definition parsed_risk_level :: "pyval \<Rightarrow> pyval option" where
  "parsed_risk_level parsed =
     (case is_in ''risk_analysis_results'' parsed of
        Inl e \<Rightarrow> None
      | Inr True \<Rightarrow>
          (case parsed of
             PDict d \<Rightarrow>
               (case get d ''risk_analysis_results'' of
                  PDict results \<Rightarrow> Some (get_or results ''risk_classification'' (PStr ''Unknown''))
                | _ \<Rightarrow> None)
           | _ \<Rightarrow> None)
      | Inr False \<Rightarrow>
          (case is_in ''risk_classification'' parsed of
             Inr True \<Rightarrow>
               (case parsed of
                  PDict d \<Rightarrow> Some (get_or d ''risk_classification'' (PStr ''Unknown''))
                | _ \<Rightarrow> None)
           | _ \<Rightarrow> None))"

text \<open>\<open>extract_risk_level\<close>\<close>

definition extract_risk_level :: "platform \<Rightarrow> pyval \<Rightarrow> exn + pyval" where
  "extract_risk_level P risk_response =
     (case risk_response of
        PDict d \<Rightarrow>
          if has_key d ''risk_analysis_results''
          then and_then (dict_method (get d ''risk_analysis_results'') ''get'') (\<lambda>results.
                 Inr (get_or results ''risk_classification'' (PStr ''Unknown'')))
          else if has_key d ''risk_classification''
          then Inr (get_or d ''risk_classification'' (PStr ''Unknown''))
          else (case get d ''response_text'' of
                  PStr response_text \<Rightarrow>
                    (case json_loads P response_text of
                       None \<Rightarrow> Inr (PStr ''Unknown'')
                     | Some parsed \<Rightarrow>
                         (case parsed_risk_level parsed of
                            Some level \<Rightarrow> Inr level
                          | None \<Rightarrow> Inr (PStr ''Unknown'')))
                | _ \<Rightarrow> Inr (PStr ''Unknown''))
      | PStr s \<Rightarrow>
          Inr (if contains (lower s) ''high'' then PStr ''High''
               else if contains (lower s) ''medium'' then PStr ''Medium''
               else if contains (lower s) ''low'' then PStr ''Low''
               else PStr ''Unknown'')
      | _ \<Rightarrow> Inr (PStr ''Unknown''))"

text \<open>\<open>extract_agent_results\<close>\<close>

definition extract_agent_results :: "platform \<Rightarrow> pyval \<Rightarrow> string \<Rightarrow> pyval" where
  "extract_agent_results P response result_key =
     (case response of
        PDict d \<Rightarrow>
          if has_key d result_key then get d result_key
          else (case get d ''response_text'' of
                  PStr response_text \<Rightarrow>
                    (case json_loads P response_text of
                       Some (PDict parsed) \<Rightarrow>
                         if has_key parsed result_key then get parsed result_key else response
                     | _ \<Rightarrow> response)
                | _ \<Rightarrow> response)
      | _ \<Rightarrow> response)"

text \<open>\<open>for match in matches\<close>: what iterating over an object yields.\<close>

definition iterate :: "pyval \<Rightarrow> exn + pyval list" where
  "iterate v =
     (case v of
        PList xs \<Rightarrow> Inr xs
      | PDict d \<Rightarrow> Inr (map (\<lambda>kv. PStr (fst kv)) d)
      | PStr s \<Rightarrow> Inr (map (\<lambda>c. PStr [c]) s)
      | _ \<Rightarrow> Inl (TypeError (quoted (type_name v) @ '' object is not iterable'')))"

text \<open>
  The loop over the matches of the sanction screening: the details of the first one
  whose source is the PEP list.
\<close>

fun first_pep_match :: "pyval list \<Rightarrow> exn + pyval option" where
  "first_pep_match [] = Inr None"
| "first_pep_match (match # matches) =
     and_then (dict_method match ''get'') (\<lambda>m.
       if py_eq (get m ''source'') (PStr ''PEP'')
       then Inr (Some (get_or m ''match_details'' (PStr [])))
       else first_pep_match matches)"

definition pep_match :: "pyval \<Rightarrow> exn + pyval option" where
  "pep_match sanction_results =
     (case sanction_results of
        PDict results \<Rightarrow>
          if results \<noteq> [] \<and> py_eq (get results ''screening_status'') (PStr ''match_found'')
          then and_then (iterate (get_or results ''matches'' (PList []))) first_pep_match
          else Inr None
      | _ \<Rightarrow> Inr None)"

text \<open>The final status decision of \<open>process_customer_submission\<close>.\<close>

definition final_status_of :: "pyval \<Rightarrow> pyval \<Rightarrow> string" where
  "final_status_of validation compliance =
     (let final_status = ''approved''
      in if py_eq validation (PStr ''incomplete'') \<or> py_eq compliance (PStr ''warning'')
         then ''pending''
         else if py_eq validation (PStr ''error'') \<or> py_eq compliance (PStr ''violation'')
         then ''rejected''
         else final_status)"

text \<open>The dictionary \<open>process_customer_submission\<close> returns when something was raised.\<close>

definition submission_error :: "world \<Rightarrow> pydict \<Rightarrow> exn \<Rightarrow> pydict" where
  "submission_error W customer_data e =
     [(''status'', PStr ''error''), (''error'', PStr (exn_message e)),
      (''customer_id'', get_or customer_data ''customer_id'' (PStr ''Unknown'')),
      (''timestamp'', PStr (now W))]"

text \<open>
  The first four stages of \<open>process_customer_submission\<close>, in their order:
  coordinator, document validation, risk analysis, sanction screening. Each stage gets
  the enriched record and leaves its step in the store; the responses of the last three
  are used further on.
\<close>

definition screening_stages ::
    "platform \<Rightarrow> world \<Rightarrow> pydict \<Rightarrow> store \<Rightarrow> (pyval \<times> pyval \<times> pyval) \<times> store" where
  "screening_stages P W enhanced_customer_data S =
     (let stage_input = [(''customer_data'', PDict enhanced_customer_data)];
          (coordinator_response, S) =
            invoke_bedrock_agent P W (agent_id W ''coordinator'') stage_input
              ''coordinator_initiation'' ''coordinator'' S;
          (validation_response, S) =
            invoke_bedrock_agent P W (agent_id W ''document_validation'') stage_input
              ''document_validation'' ''document_validation'' S;
          (risk_response, S) =
            invoke_bedrock_agent P W (agent_id W ''risk_analysis'') stage_input
              ''risk_analysis'' ''risk_analysis'' S;
          (sanction_response, S) =
            invoke_bedrock_agent P W (agent_id W ''sanction_screening'') stage_input
              ''sanction_screening'' ''sanction_screening'' S
      in ((validation_response, risk_response, sanction_response), S))"

text \<open>
  The end of \<open>process_customer_submission\<close>: the compliance stage on the enriched
  record and the results of the earlier stages, the final status decision, the risk
  level, the last write to the case and the dictionary returned.
\<close>

definition compliance_and_decision ::
    "platform \<Rightarrow> world \<Rightarrow> pydict \<Rightarrow> pydict \<Rightarrow> pyval \<Rightarrow> pyval \<Rightarrow> pyval \<Rightarrow> store
      \<Rightarrow> pydict \<times> store option" where
  "compliance_and_decision P W customer_data enhanced_customer_data validation_response
       risk_response sanction_response S =
     (let compliance_input_data =
            [(''customer_data'', PDict enhanced_customer_data),
             (''agent_results'',
              PDict [(''document_validation'',
                      extract_agent_results P validation_response ''document_validation_results''),
                     (''risk_analysis'',
                      extract_agent_results P risk_response ''risk_analysis_results''),
                     (''sanction_screening'',
                      extract_agent_results P sanction_response ''sanction_screening_results'')]),
             (''processing_timeline'',
              PDict [(''document_validation_time'', PStr (now W)),
                     (''risk_analysis_time'', PStr (now W)),
                     (''sanction_screening_time'', PStr (now W))])];
          (compliance_response, S) =
            invoke_bedrock_agent P W (agent_id W ''compliance'') compliance_input_data
              ''compliance_check'' ''compliance'' S;
          validation = extract_status_from_response validation_response ''validation_status'';
          compliance = extract_status_from_response compliance_response ''compliance_status'';
          final_status = final_status_of validation compliance
      in case extract_risk_level P risk_response of
           Inl e \<Rightarrow> (submission_error W customer_data e, Some S)
         | Inr risk_level \<Rightarrow>
             ([(''status'', PStr ''success''),
               (''customer_id'', get customer_data ''customer_id''),
               (''case_id'', PInt (case_id (row S))), (''final_status'', PStr final_status),
               (''risk_level'', risk_level), (''validation_status'', validation),
               (''compliance_status'', compliance), (''timestamp'', PStr (now W))],
              Some (update_case_status (PStr final_status) risk_level validation compliance
                      (PStr (now W)) (get_or enhanced_customer_data ''pep_status'' (PBool False))
                      S)))"

text \<open>
  \<open>process_customer_submission\<close>. The third argument is the case the store already
  holds for this customer, if any; the result is the returned dictionary and the case as
  the run leaves it in the store (\<open>None\<close> when no case was reached). Whatever is raised
  on the way is caught at the end and returned as the error dictionary, with the case as
  it stands at that moment. The table of documents of the store, which the run fills
  after creating the case, is left out, and so is the session state that only feeds the
  next request to an agent.
\<close>

definition process_customer_submission ::
    "platform \<Rightarrow> world \<Rightarrow> store option \<Rightarrow> pydict \<Rightarrow> pydict \<times> store option" where
  "process_customer_submission P W existing submitted =
     (let customer_data =
            (if \<not> has_key submitted ''customer_id''
             then put submitted ''customer_id'' (PStr (fresh_customer_id W)) else submitted)
      in case enhance_customer_data_with_documents P W customer_data of
           Inl e \<Rightarrow> (submission_error W customer_data e, existing)
         | Inr enhanced_customer_data \<Rightarrow>
      let S = get_or_create_case W existing enhanced_customer_data;
          ((validation_response, risk_response, sanction_response), S) =
            screening_stages P W enhanced_customer_data S
      in case pep_match (extract_agent_results P sanction_response ''sanction_screening_results'') of
           Inl e \<Rightarrow> (submission_error W customer_data e, Some S)
         | Inr found \<Rightarrow>
      let enhanced_customer_data =
            (case found of
               Some details \<Rightarrow>
                 put (put enhanced_customer_data ''pep_status'' (PBool True))
                   ''pep_details'' details
             | None \<Rightarrow> enhanced_customer_data);
          S = (case found of
                 Some details \<Rightarrow> update_case_status PNone PNone PNone PNone PNone (PBool True) S
               | None \<Rightarrow> S)
      in compliance_and_decision P W customer_data enhanced_customer_data validation_response
           risk_response sanction_response S)"

text \<open>
  What a stage returns when its agent is not configured or the call raises: a
  dictionary with the status \<open>error\<close> and none of the keys the pipeline reads.
\<close>

definition failure_reply :: "pyval \<Rightarrow> bool" where
  "failure_reply response =
     (case response of
        PDict d \<Rightarrow>
          get d ''status'' = PStr ''error''
          \<and> list_all (\<lambda>k. \<not> has_key d k)
                [''validation_status'', ''compliance_status'', ''document_validation_results'',
                 ''risk_analysis_results'', ''risk_classification'',
                 ''sanction_screening_results'', ''screening_status'', ''response_text'']
      | _ \<Rightarrow> False)"

text \<open>
  Worked examples: a world without documents in which every call of the agent runtime
  raises, and a submission without attached documents.
\<close>

definition failing_world :: world where
  "failing_world =
     \<lparr>find_document = (\<lambda>doc_type doc_id. None), fresh_customer_id = ''CUST001'',
      fresh_case_id = 1,
      agent_id = (\<lambda>name. Some (''agent-'' @ name)),
      invoke_agent = (\<lambda>agent request input_data. Raises ''Read timeout on endpoint URL''),
      now = ''2024-05-01T12:00:00''\<rparr>"

definition plain_submission :: pydict where
  "plain_submission =
     [(''name'', PStr ''Alice Smith''), (''email'', PStr ''alice@example.com''),
      (''phone'', PStr ''555-0100''), (''address'', PStr ''12 Oak Lane''),
      (''documents'', PDict [])]"

text \<open>
  Worked example: a submission with an attached ID proof, in a world whose documents
  directory holds the file and whose extraction from it succeeds.
\<close>

definition document_world :: world where
  "document_world =
     failing_world
       \<lparr>find_document :=
          (\<lambda>doc_type doc_id.
             if doc_type = ''id_proof'' \<and> doc_id = PStr ''ID123''
             then Some (''id_proof_ID123.png'',
                        Extracted (PDict [(''first_name'', PStr ''Bob''),
                                          (''last_name'', PStr ''Jones''),
                                          (''dob'', PStr ''1980-02-02''),
                                          (''nationality'', PStr ''Canadian'')]))
             else None)\<rparr>"

definition declared_submission :: pydict where
  "declared_submission =
     [(''customer_id'', PStr ''CUST007''), (''name'', PStr ''Alice Smith''),
      (''dob'', PStr ''1985-06-15''), (''nationality'', PStr ''British''),
      (''address'', PStr ''12 Oak Lane''),
      (''documents'', PDict [(''id_proof'', PStr ''ID123'')])]"

definition enriched_example :: pydict where
  "enriched_example =
     [(''name'', PStr ''Bob Jones''), (''email'', PStr []), (''phone'', PStr []),
      (''address'', PStr ''12 Oak Lane''), (''customer_id'', PStr ''CUST007''),
      (''dob'', PStr ''1980-02-02''), (''nationality'', PStr ''Canadian''),
      (''occupation'', PStr []), (''employer'', PStr []), (''annual_income'', PNone),
      (''source_of_funds'', PStr []), (''business_name'', PStr []), (''position'', PStr []),
      (''university'', PStr []), (''pep_status'', PBool False),
      (''documents'', PDict [(''id_proof'', PStr ''ID123'')]),
      (''document_details'',
       PDict [(''id_proof'',
               PDict [(''document_id'', PStr ''ID123''),
                      (''filename'', PStr ''id_proof_ID123.png''),
                      (''extracted_data'',
                       PDict [(''first_name'', PStr ''Bob''), (''last_name'', PStr ''Jones''),
                              (''dob'', PStr ''1980-02-02''),
                              (''nationality'', PStr ''Canadian'')]),
                      (''validation_status'', PStr ''pending'')])]),
      (''submission_time'', PStr ''2024-05-01T12:00:00''),
      (''processing_status'', PStr ''submitted''), (''customer_type'', PStr ''Individual''),
      (''estimated_risk_level'', PStr ''Low'')]"

text \<open>The fields that each kind of document feeds.\<close>

definition fed_by :: "string \<Rightarrow> string list" where
  "fed_by doc_type =
     (if doc_type = ''id_proof'' then [''name'', ''dob'', ''nationality'']
      else if doc_type = ''address_proof'' then [''address'']
      else if doc_type = ''employment_proof''
      then [''employer'', ''occupation'', ''annual_income'']
      else [])"




definition scored_example :: pydict where
  "scored_example =
     [(''annual_income'', PInt 250000),
      (''documents'',
       PDict [(''id_proof'', PStr ''P1''), (''address_proof'', PStr ''U1''),
              (''employment_proof'', PStr ''E1'')])]"

text \<open>
  Worked example: an employment proof whose salary is a text that does not convert to a
  number and whose position is empty, against a declared employer, occupation and
  income.
\<close>

definition employment_world :: world where
  "employment_world =
     failing_world
       \<lparr>find_document :=
          (\<lambda>doc_type doc_id.
             if doc_type = ''employment_proof'' \<and> doc_id = PStr ''E77''
             then Some (''employment_proof_E77.pdf'',
                        Extracted (PDict [(''employer_name'', PStr ''Acme Ltd''),
                                          (''position'', PStr []),
                                          (''annual_salary'', PStr ''60k'')]))
             else None)\<rparr>"

definition employed_submission :: pydict where
  "employed_submission =
     [(''customer_id'', PStr ''CUST008''), (''name'', PStr ''Carol White''),
      (''employer'', PStr ''Initech''), (''occupation'', PStr ''Engineer''),
      (''annual_income'', PInt 50000),
      (''documents'', PDict [(''employment_proof'', PStr ''E77'')])]"

definition employed_enriched :: pydict where
  "employed_enriched =
     [(''name'', PStr ''Carol White''), (''email'', PStr []), (''phone'', PStr []),
      (''address'', PStr []), (''customer_id'', PStr ''CUST008''), (''dob'', PStr []),
      (''nationality'', PStr []), (''occupation'', PStr ''Engineer''),
      (''employer'', PStr ''Acme Ltd''), (''annual_income'', PInt 50000),
      (''source_of_funds'', PStr []), (''business_name'', PStr []), (''position'', PStr []),
      (''university'', PStr []), (''pep_status'', PBool False),
      (''documents'', PDict [(''employment_proof'', PStr ''E77'')]),
      (''document_details'',
       PDict [(''employment_proof'',
               PDict [(''document_id'', PStr ''E77''),
                      (''filename'', PStr ''employment_proof_E77.pdf''),
                      (''extracted_data'',
                       PDict [(''employer_name'', PStr ''Acme Ltd''), (''position'', PStr []),
                              (''annual_salary'', PStr ''60k'')]),
                      (''validation_status'', PStr ''pending'')])]),
      (''submission_time'', PStr ''2024-05-01T12:00:00''),
      (''processing_status'', PStr ''submitted''), (''customer_type'', PStr ''Individual''),
      (''estimated_risk_level'', PStr ''Low'')]"

section \<open>Words of a string\<close>

lemma split_from_nonempty: "w \<in> set (split_from cur s) \<Longrightarrow> w \<noteq> []"
  by (induction s arbitrary: cur) (auto split: if_splits)

lemma split_nonempty: "w \<in> set (split s) \<Longrightarrow> w \<noteq> []"
  unfolding split_def by (rule split_from_nonempty)

lemma filter_split: "filter (\<lambda>word. word \<noteq> []) (split s) = split s"
  by (rule filter_True) (simp add: split_nonempty)

section \<open>Fuzzy matching\<close>

text \<open>
  Claim C7, as the code has it. A string whose normal form is not empty matches its own
  normal form, and two non-empty strings with the same normal form match, whatever the
  match type and the threshold. The normal form of a non-empty string of white space is
  the empty string, which matches nothing: the claim needs the normal form, not the
  string, to be non-empty.
\<close>

theorem fuzzy_match_equal_normal_forms:
  "(normalize_text s \<noteq> [] \<longrightarrow>
      fuzzy_match (PStr (normalize_text s)) (PStr (normalize_text s)) threshold match_type
        = Inr True)
   \<and> (s1 \<noteq> [] \<and> s2 \<noteq> [] \<and> normalize_text s1 = normalize_text s2 \<longrightarrow>
      fuzzy_match (PStr s1) (PStr s2) threshold match_type = Inr True)"
  by (simp add: fuzzy_match_def and_then_def str_method_def)

theorem fuzzy_match_equal_normal_forms_witness:
  "normalize_text ''John Smith'' \<noteq> []
   \<and> fuzzy_match (PStr (normalize_text ''John Smith'')) (PStr (normalize_text ''John Smith''))
        (8 / 10) ''name'' = Inr True
   \<and> ''John  Smith'' \<noteq> [] \<and> ''john smith '' \<noteq> []
   \<and> normalize_text ''John  Smith'' = normalize_text ''john smith ''
   \<and> fuzzy_match (PStr ''John  Smith'') (PStr ''john smith '') (8 / 10) ''name'' = Inr True"
proof -
  have h1: "normalize_text ''John Smith'' \<noteq> []" by code_simp
  have h2: "normalize_text ''John  Smith'' = normalize_text ''john smith ''" by code_simp
  have h3: "''John  Smith'' \<noteq> [] \<and> ''john smith '' \<noteq> []" by simp
  from h1 h2 h3
    fuzzy_match_equal_normal_forms
      [of "''John Smith''" "8 / 10" "''name''" "''John  Smith''" "''john smith ''"]
  show ?thesis by blast
qed

text \<open>
  Claim C7 as stated fails at the string made of one space: it is not empty, its normal
  form is, and the normal form does not match itself.
\<close>

theorem fuzzy_match_blank_counterexample:
  "'' '' \<noteq> []
   \<and> fuzzy_match (PStr (normalize_text '' '')) (PStr (normalize_text '' '')) (8 / 10) ''general''
       = Inr False"
  by code_simp

text \<open>
  Claim C9. When either compared value is empty (the empty string, \<open>None\<close>, any object
  that is false), the comparison returns \<open>False\<close> and raises nothing, also when both
  are empty.
\<close>

theorem fuzzy_match_empty:
  "\<not> truthy v1 \<or> \<not> truthy v2 \<Longrightarrow> fuzzy_match v1 v2 threshold match_type = Inr False"
  by (simp add: fuzzy_match_def)

theorem fuzzy_match_empty_witness:
  "\<not> truthy (PStr []) \<and> \<not> truthy PNone
   \<and> fuzzy_match (PStr []) (PStr []) (8 / 10) ''name'' = Inr False
   \<and> fuzzy_match PNone (PStr ''john'') (8 / 10) ''general'' = Inr False"
  using fuzzy_match_empty [of "PStr []" "PStr []" "8 / 10" "''name''"]
    fuzzy_match_empty [of PNone "PStr ''john''" "8 / 10" "''general''"]
  by simp

text \<open>
  Claim C8, as the code has it. For a single token against a string of several words the
  abbreviation similarity is 0.9 exactly when the token has at least two characters and,
  in lower case, is the acronym of the words or the beginning of one of them, and 0.0
  otherwise. The function is symmetric on all strings.
\<close>

theorem abbreviation_similarity_single_token:
  "(split str1 = [token] \<and> length (split str2) > 1 \<longrightarrow>
      abbreviation_similarity str1 str2 =
        (if length token \<ge> 2 \<and>
            (lower token = map (\<lambda>word. lower_char (hd word)) (split str2)
             \<or> list_ex (\<lambda>word. startswith (lower word) (lower token)) (split str2))
         then 9 / 10 else 0))
   \<and> abbreviation_similarity str2 str1 = abbreviation_similarity str1 str2"
  by (auto simp: abbreviation_similarity_def is_abbreviation_def Let_def filter_split)

theorem abbreviation_similarity_single_token_witness:
  "split ''corp'' = [''corp''] \<and> length (split ''tech corp'') > 1
   \<and> abbreviation_similarity ''corp'' ''tech corp'' = 9 / 10
   \<and> abbreviation_similarity ''tech corp'' ''corp'' = 9 / 10"
proof -
  have h1: "split ''corp'' = [''corp'']" by code_simp
  have h2: "length (split ''tech corp'') > 1" by code_simp
  have h3: "length ''corp'' \<ge> 2 \<and>
            (lower ''corp'' = map (\<lambda>word. lower_char (hd word)) (split ''tech corp'')
             \<or> list_ex (\<lambda>word. startswith (lower word) (lower ''corp'')) (split ''tech corp''))"
    by code_simp
  from h1 h2 h3
    abbreviation_similarity_single_token [of "''corp''" "''corp''" "''tech corp''"]
  show ?thesis by simp
qed

text \<open>
  Claim C8 as stated fails at the token \<open>corp\<close> against \<open>tech corp\<close>: the token is no
  part of the first word \<open>tech\<close> and is not the acronym \<open>tc\<close>, yet the similarity is
  0.9, because \<open>corp\<close> begins the second word.
\<close>

theorem abbreviation_similarity_counterexample:
  "length (split ''corp'') = 1 \<and> length (split ''tech corp'') > 1
   \<and> \<not> spec_abbreviation_test ''corp'' ''tech corp''
   \<and> abbreviation_similarity ''corp'' ''tech corp'' = 9 / 10"
  by code_simp

section \<open>Rule-based validation\<close>

lemma and_then_Inr: "and_then m f = Inr r \<longleftrightarrow> (\<exists>v. m = Inr v \<and> f v = Inr r)"
  by (cases m) (simp_all add: and_then_def)

lemma penalty_nonneg: "0 \<le> penalty_by_count ds" "0 \<le> penalty_with_low ds"
  by (simp_all add: penalty_by_count_def penalty_with_low_def)

lemma update_match_and_score_sound:
  assumes "0 \<le> penalty ds"
  shows "0 \<le> confidence_score (update_match_and_score penalty ds)
    \<and> confidence_score (update_match_and_score penalty ds) \<le> 100
    \<and> (overall_match (update_match_and_score penalty ds)
         \<longleftrightarrow> discrepancies (update_match_and_score penalty ds) = [])"
  using assms by (simp add: update_match_and_score_def initial_result_def)

lemma initial_result_sound:
  "0 \<le> confidence_score initial_result \<and> confidence_score initial_result \<le> 100
   \<and> (overall_match initial_result \<longleftrightarrow> discrepancies initial_result = [])"
  by (simp add: initial_result_def)

text \<open>Every validator that returns has gone through its closing block.\<close>

lemma validate_id_proof_shape:
  "validate_id_proof P e u = Inr r \<Longrightarrow> \<exists>ds. r = update_match_and_score penalty_by_count ds"
  unfolding validate_id_proof_def Let_def and_then_Inr by blast

lemma with_severity_append:
  "with_severity s (xs @ ys) = with_severity s xs + with_severity s ys"
  by (simp add: with_severity_def)

lemma compare_field_low:
  "compare_field name d u t m sev = Inr ds \<Longrightarrow>
   with_severity ''low'' ds = (if sev = ''low'' then length ds else 0)"
  by (auto simp: compare_field_def and_then_Inr with_severity_def split: if_splits)

text \<open>The address validator reports discrepancies of high severity only.\<close>

lemma validate_address_proof_shape:
  "validate_address_proof e u = Inr r \<Longrightarrow>
     \<exists>ds. r = update_match_and_score penalty_by_count ds \<and> with_severity ''low'' ds = 0"
  unfolding validate_address_proof_def Let_def and_then_Inr
  by (auto simp: with_severity_append dest!: compare_field_low)

lemma validate_employment_proof_shape:
  "validate_employment_proof e u = Inr r \<Longrightarrow>
     \<exists>ds. r = update_match_and_score penalty_with_low ds"
  unfolding validate_employment_proof_def Let_def and_then_Inr by blast

lemma severity_count_Mismatch:
  "severity_count s (map Mismatch ds) = int (with_severity s ds)"
  by (simp add: severity_count_def with_severity_def filter_map comp_def)

lemma update_score_by_count:
  "discrepancies (update_match_and_score penalty_by_count ds) \<noteq> [] \<Longrightarrow>
   confidence_score (update_match_and_score penalty_by_count ds) =
     max 0 (100 - (severity_count ''high''
                     (discrepancies (update_match_and_score penalty_by_count ds)) * 30
                   + severity_count ''medium''
                       (discrepancies (update_match_and_score penalty_by_count ds)) * 20
                   + int (length (discrepancies (update_match_and_score penalty_by_count ds)))
                     * 10))"
  by (simp add: update_match_and_score_def initial_result_def penalty_by_count_def
      severity_count_Mismatch split: if_splits)

lemma update_score_no_low:
  "discrepancies (update_match_and_score penalty_by_count ds) \<noteq> [] \<Longrightarrow>
   with_severity ''low'' ds = 0 \<Longrightarrow>
   confidence_score (update_match_and_score penalty_by_count ds) =
     spec_confidence_score 10 (discrepancies (update_match_and_score penalty_by_count ds))"
  by (simp add: update_match_and_score_def initial_result_def penalty_by_count_def
      spec_confidence_score_def severity_count_Mismatch split: if_splits)

lemma update_score_with_low:
  "discrepancies (update_match_and_score penalty_with_low ds) \<noteq> [] \<Longrightarrow>
   confidence_score (update_match_and_score penalty_with_low ds) =
     spec_confidence_score 5 (discrepancies (update_match_and_score penalty_with_low ds))"
  by (simp add: update_match_and_score_def initial_result_def penalty_with_low_def
      spec_confidence_score_def severity_count_Mismatch split: if_splits)

text \<open>
  Claim C4, as the code has it. When a validator returns at least one discrepancy, the
  confidence score is 100 minus a penalty, not below 0. For an address proof the penalty
  is the stated one with 10 per discrepancy, for an employment proof the stated one with
  5 per discrepancy. For an ID proof it is 30 per high, 20 per medium and 10 per
  discrepancy, with no further term for the low ones.
\<close>

theorem confidence_score_penalty:
  "(validate_id_proof P extracted_data user_data = Inr r \<and> discrepancies r \<noteq> [] \<longrightarrow>
      confidence_score r =
        max 0 (100 - (severity_count ''high'' (discrepancies r) * 30
                      + severity_count ''medium'' (discrepancies r) * 20
                      + int (length (discrepancies r)) * 10)))
   \<and> (validate_address_proof extracted_data user_data = Inr r \<and> discrepancies r \<noteq> [] \<longrightarrow>
      confidence_score r = spec_confidence_score 10 (discrepancies r))
   \<and> (validate_employment_proof extracted_data user_data = Inr r \<and> discrepancies r \<noteq> [] \<longrightarrow>
      confidence_score r = spec_confidence_score 5 (discrepancies r))"
proof (intro conjI impI)
  assume a: "validate_id_proof P extracted_data user_data = Inr r \<and> discrepancies r \<noteq> []"
  then obtain ds where "r = update_match_and_score penalty_by_count ds"
    using validate_id_proof_shape by blast
  with a show "confidence_score r =
        max 0 (100 - (severity_count ''high'' (discrepancies r) * 30
                      + severity_count ''medium'' (discrepancies r) * 20
                      + int (length (discrepancies r)) * 10))"
    using update_score_by_count by blast
next
  assume a: "validate_address_proof extracted_data user_data = Inr r \<and> discrepancies r \<noteq> []"
  then obtain ds
    where "r = update_match_and_score penalty_by_count ds" "with_severity ''low'' ds = 0"
    using validate_address_proof_shape by blast
  with a show "confidence_score r = spec_confidence_score 10 (discrepancies r)"
    using update_score_no_low by blast
next
  assume a: "validate_employment_proof extracted_data user_data = Inr r \<and> discrepancies r \<noteq> []"
  then obtain ds where "r = update_match_and_score penalty_with_low ds"
    using validate_employment_proof_shape by blast
  with a show "confidence_score r = spec_confidence_score 5 (discrepancies r)"
    using update_score_with_low by blast
qed

theorem confidence_score_penalty_witness:
  "validate_id_proof bare_platform
       [(''first_name'', PStr ''Maria''), (''dob'', PStr ''1990-01-01'')]
       [(''name'', PStr ''Peter Jones''), (''dob'', PStr ''1985-06-15'')]
     = Inr \<lparr>overall_match = False, confidence_score = 30,
            discrepancies =
              [Mismatch \<lparr>field = ''first_name'', document_value = PStr ''maria'',
                         user_value = PStr ''peter'', severity = ''medium''\<rparr>,
               Mismatch \<lparr>field = ''date_of_birth'', document_value = PStr ''1990-01-01'',
                         user_value = PStr ''1985-06-15'', severity = ''high''\<rparr>],
            warnings = [], validation_details = []\<rparr>
   \<and> (30 :: int) = max 0 (100 - (1 * 30 + 1 * 20 + 2 * 10))
   \<and> validate_address_proof [(''full_address'', PStr ''12 Oak Lane'')]
         [(''address'', PStr ''99 Elm Court'')]
     = Inr \<lparr>overall_match = False, confidence_score = 60,
            discrepancies =
              [Mismatch \<lparr>field = ''address'', document_value = PStr ''12 oak lane'',
                         user_value = PStr ''99 elm court'', severity = ''high''\<rparr>],
            warnings = [], validation_details = []\<rparr>
   \<and> validate_employment_proof [(''position'', PStr ''Nurse'')]
         [(''occupation'', PStr ''Pilot'')]
     = Inr \<lparr>overall_match = False, confidence_score = 85,
            discrepancies =
              [Mismatch \<lparr>field = ''position'', document_value = PStr ''nurse'',
                         user_value = PStr ''pilot'', severity = ''low''\<rparr>],
            warnings = [], validation_details = []\<rparr>"
proof -
  let ?r1 = "\<lparr>overall_match = False, confidence_score = 30,
            discrepancies =
              [Mismatch \<lparr>field = ''first_name'', document_value = PStr ''maria'',
                         user_value = PStr ''peter'', severity = ''medium''\<rparr>,
               Mismatch \<lparr>field = ''date_of_birth'', document_value = PStr ''1990-01-01'',
                         user_value = PStr ''1985-06-15'', severity = ''high''\<rparr>],
            warnings = [], validation_details = []\<rparr>"
  let ?r2 = "\<lparr>overall_match = False, confidence_score = 60,
            discrepancies =
              [Mismatch \<lparr>field = ''address'', document_value = PStr ''12 oak lane'',
                         user_value = PStr ''99 elm court'', severity = ''high''\<rparr>],
            warnings = [], validation_details = []\<rparr>"
  let ?r3 = "\<lparr>overall_match = False, confidence_score = 85,
            discrepancies =
              [Mismatch \<lparr>field = ''position'', document_value = PStr ''nurse'',
                         user_value = PStr ''pilot'', severity = ''low''\<rparr>],
            warnings = [], validation_details = []\<rparr>"
  have e1: "validate_id_proof bare_platform
       [(''first_name'', PStr ''Maria''), (''dob'', PStr ''1990-01-01'')]
       [(''name'', PStr ''Peter Jones''), (''dob'', PStr ''1985-06-15'')] = Inr ?r1"
    by code_simp
  have e2: "validate_address_proof [(''full_address'', PStr ''12 Oak Lane'')]
         [(''address'', PStr ''99 Elm Court'')] = Inr ?r2"
    by code_simp
  have e3: "validate_employment_proof [(''position'', PStr ''Nurse'')]
         [(''occupation'', PStr ''Pilot'')] = Inr ?r3"
    by code_simp
  have d: "discrepancies ?r1 \<noteq> []" "discrepancies ?r2 \<noteq> []" "discrepancies ?r3 \<noteq> []"
    by simp_all
  have c1: "confidence_score ?r1 =
        max 0 (100 - (severity_count ''high'' (discrepancies ?r1) * 30
                      + severity_count ''medium'' (discrepancies ?r1) * 20
                      + int (length (discrepancies ?r1)) * 10))"
    using e1 d(1) confidence_score_penalty [of bare_platform
        "[(''first_name'', PStr ''Maria''), (''dob'', PStr ''1990-01-01'')]"
        "[(''name'', PStr ''Peter Jones''), (''dob'', PStr ''1985-06-15'')]" ?r1]
    by blast
  have c2: "confidence_score ?r2 = spec_confidence_score 10 (discrepancies ?r2)"
    using e2 d(2) confidence_score_penalty [of bare_platform
        "[(''full_address'', PStr ''12 Oak Lane'')]" "[(''address'', PStr ''99 Elm Court'')]" ?r2]
    by blast
  have c3: "confidence_score ?r3 = spec_confidence_score 5 (discrepancies ?r3)"
    using e3 d(3) confidence_score_penalty [of bare_platform
        "[(''position'', PStr ''Nurse'')]" "[(''occupation'', PStr ''Pilot'')]" ?r3]
    by blast
  have n: "(30 :: int) = max 0 (100 - (1 * 30 + 1 * 20 + 2 * 10))" by simp
  from e1 e2 e3 c1 c2 c3 n show ?thesis by blast
qed

text \<open>
  Claim C4 as stated fails for an ID proof whose only discrepancy is the nationality, of
  low severity: the score is 90, where the stated penalty gives 85 (5 per discrepancy) or
  80 (10 per discrepancy).
\<close>

theorem confidence_score_id_proof_counterexample:
  "validate_id_proof bare_platform [(''nationality'', PStr ''French'')]
       [(''nationality'', PStr ''German'')]
     = Inr \<lparr>overall_match = False, confidence_score = 90,
            discrepancies =
              [Mismatch \<lparr>field = ''nationality'', document_value = PStr ''french'',
                         user_value = PStr ''german'', severity = ''low''\<rparr>],
            warnings = [], validation_details = []\<rparr>
   \<and> spec_confidence_score 5
         [Mismatch \<lparr>field = ''nationality'', document_value = PStr ''french'',
                    user_value = PStr ''german'', severity = ''low''\<rparr>] = 85
   \<and> spec_confidence_score 10
         [Mismatch \<lparr>field = ''nationality'', document_value = PStr ''french'',
                    user_value = PStr ''german'', severity = ''low''\<rparr>] = 80"
  by code_simp

text \<open>
  Claim C5. For all records and every document type the rule-based validator returns a
  result whose confidence score lies between 0 and 100 and whose match flag is true
  exactly when its list of discrepancies is empty. This covers the result that stands
  for an exception inside a validator.
\<close>

theorem validate_with_rules_invariant:
  "0 \<le> confidence_score (validate_with_rules P extracted_data user_data document_type)
   \<and> confidence_score (validate_with_rules P extracted_data user_data document_type) \<le> 100
   \<and> (overall_match (validate_with_rules P extracted_data user_data document_type)
        \<longleftrightarrow> discrepancies (validate_with_rules P extracted_data user_data document_type) = [])"
proof -
  consider (id) "document_type = ''id_proof''"
    | (address) "document_type \<noteq> ''id_proof''" "document_type = ''address_proof''"
    | (employment) "document_type \<noteq> ''id_proof''" "document_type \<noteq> ''address_proof''"
        "document_type = ''employment_proof''"
    | (other) "document_type \<noteq> ''id_proof''" "document_type \<noteq> ''address_proof''"
        "document_type \<noteq> ''employment_proof''"
    by blast
  then show ?thesis
  proof cases
    case id
    show ?thesis
    proof (cases "validate_id_proof P extracted_data user_data")
      case (Inl e)
      with id show ?thesis by (simp add: validate_with_rules_def)
    next
      case (Inr r)
      then obtain ds where "r = update_match_and_score penalty_by_count ds"
        using validate_id_proof_shape by blast
      with id Inr show ?thesis
        using update_match_and_score_sound [of penalty_by_count ds, OF penalty_nonneg(1)]
        by (simp add: validate_with_rules_def)
    qed
  next
    case address
    show ?thesis
    proof (cases "validate_address_proof extracted_data user_data")
      case (Inl e)
      with address show ?thesis by (simp add: validate_with_rules_def)
    next
      case (Inr r)
      then obtain ds where "r = update_match_and_score penalty_by_count ds"
        using validate_address_proof_shape by blast
      with address Inr show ?thesis
        using update_match_and_score_sound [of penalty_by_count ds, OF penalty_nonneg(1)]
        by (simp add: validate_with_rules_def)
    qed
  next
    case employment
    show ?thesis
    proof (cases "validate_employment_proof extracted_data user_data")
      case (Inl e)
      with employment show ?thesis by (simp add: validate_with_rules_def)
    next
      case (Inr r)
      then obtain ds where "r = update_match_and_score penalty_with_low ds"
        using validate_employment_proof_shape by blast
      with employment Inr show ?thesis
        using update_match_and_score_sound [of penalty_with_low ds, OF penalty_nonneg(2)]
        by (simp add: validate_with_rules_def)
    qed
  next
    case other
    then show ?thesis
      using initial_result_sound by (simp add: validate_with_rules_def)
  qed
qed

theorem validate_with_rules_invariant_witness:
  "validate_with_rules bare_platform [(''first_name'', PNone)] [(''name'', PStr ''Ann Lee'')]
       ''id_proof''
     = \<lparr>overall_match = False, confidence_score = 0,
        discrepancies = [Remark ''Validation error occurred''],
        warnings = [''Validation failed: '' @ quoted ''NoneType''
                      @ '' object has no attribute '' @ quoted ''strip''],
        validation_details = []\<rparr>
   \<and> 0 \<le> confidence_score
            (validate_with_rules bare_platform [(''first_name'', PNone)]
               [(''name'', PStr ''Ann Lee'')] ''id_proof'')
   \<and> confidence_score
        (validate_with_rules bare_platform [(''first_name'', PNone)]
           [(''name'', PStr ''Ann Lee'')] ''id_proof'') \<le> 100
   \<and> \<not> overall_match
          (validate_with_rules bare_platform [(''first_name'', PNone)]
             [(''name'', PStr ''Ann Lee'')] ''id_proof'')"
proof -
  have e: "validate_with_rules bare_platform [(''first_name'', PNone)]
       [(''name'', PStr ''Ann Lee'')] ''id_proof''
     = \<lparr>overall_match = False, confidence_score = 0,
        discrepancies = [Remark ''Validation error occurred''],
        warnings = [''Validation failed: '' @ quoted ''NoneType''
                      @ '' object has no attribute '' @ quoted ''strip''],
        validation_details = []\<rparr>"
    by code_simp
  from e validate_with_rules_invariant [of bare_platform "[(''first_name'', PNone)]"
      "[(''name'', PStr ''Ann Lee'')]" "''id_proof''"]
  show ?thesis by simp
qed

text \<open>
  Claim C10. For a document type other than \<open>id_proof\<close>, \<open>address_proof\<close> and
  \<open>employment_proof\<close> the validator returns a match with confidence 100 and no
  discrepancy or warning, whatever the two records hold.
\<close>

theorem validate_with_rules_unknown_type:
  "document_type \<noteq> ''id_proof'' \<and> document_type \<noteq> ''address_proof''
     \<and> document_type \<noteq> ''employment_proof'' \<Longrightarrow>
   validate_with_rules P extracted_data user_data document_type =
     \<lparr>overall_match = True, confidence_score = 100, discrepancies = [], warnings = [],
      validation_details = []\<rparr>"
  by (simp add: validate_with_rules_def initial_result_def)

theorem validate_with_rules_unknown_type_witness:
  "''passport_scan'' \<noteq> ''id_proof'' \<and> ''passport_scan'' \<noteq> ''address_proof''
   \<and> ''passport_scan'' \<noteq> ''employment_proof''
   \<and> validate_with_rules bare_platform
         [(''first_name'', PStr ''Maria''), (''nationality'', PNone)]
         [(''name'', PStr ''Peter Jones'')] ''passport_scan''
       = \<lparr>overall_match = True, confidence_score = 100, discrepancies = [], warnings = [],
          validation_details = []\<rparr>"
  using validate_with_rules_unknown_type [of "''passport_scan''" bare_platform
      "[(''first_name'', PStr ''Maria''), (''nationality'', PNone)]"
      "[(''name'', PStr ''Peter Jones'')]"]
  by simp

section \<open>Dictionaries\<close>

lemma get_put: "get (put d k v) k' = (if k' = k then v else get d k')"
  by (simp add: get_def get_or_def put_def update_conv')

lemma get_or_put: "get_or (put d k v) k' dflt = (if k' = k then v else get_or d k' dflt)"
  by (simp add: get_or_def put_def update_conv')

lemma py_eq_PStr: "py_eq v (PStr s) \<longleftrightarrow> v = PStr s"
  by (cases v) (auto split: if_splits)


lemma and_then_simps:
  "and_then (Inr v) f = f v" "and_then (Inl e) f = Inl e"
  by (simp_all add: and_then_def)
section \<open>Risk scorer\<close>

lemma calculate_estimated_risk_points:
  "calculate_estimated_risk cd =
     and_then (risk_points cd) (\<lambda>points.
       Inr (band_of ((if truthy (get cd ''pep_status'') then 50 else 0)
                     + (if truthy (get cd ''business_name'') then 20 else 0) + points)))"
  unfolding calculate_estimated_risk_def risk_points_def band_of_def Let_def
  by (cases "greater_than (get cd ''annual_income'') 500000";
      cases "greater_than (get cd ''annual_income'') 200000";
      cases "str_method (get_or cd ''position'' (PStr [])) ''lower''";
      cases "missing_from (get_or cd ''documents'' (PDict [])) required_docs";
      simp add: and_then_simps)

lemma band_of_mono: "a \<le> b \<Longrightarrow> band_rank (band_of a) \<le> band_rank (band_of b)"
  by (simp add: band_of_def band_rank_def)

lemma risk_points_put:
  "k \<noteq> ''annual_income'' \<Longrightarrow> k \<noteq> ''position'' \<Longrightarrow> k \<noteq> ''documents'' \<Longrightarrow>
   risk_points (put cd k v) = risk_points cd"
  by (simp add: risk_points_def get_put get_or_put)

text \<open>
  Claim C6. Whenever the scorer returns a band for a customer record, it returns a band
  for the record with the PEP flag set, and for the record with a business name put in,
  and that band is not lower (Low below Medium below High).
\<close>

theorem calculate_estimated_risk_monotonic:
  "calculate_estimated_risk customer_data = Inr band \<Longrightarrow>
   (\<exists>band'. calculate_estimated_risk (put customer_data ''pep_status'' (PBool True)) = Inr band'
             \<and> band_rank band \<le> band_rank band')
   \<and> (truthy business_name \<longrightarrow>
        (\<exists>band'. calculate_estimated_risk (put customer_data ''business_name'' business_name)
                   = Inr band'
                 \<and> band_rank band \<le> band_rank band'))"
proof -
  assume "calculate_estimated_risk customer_data = Inr band"
  then obtain points where p: "risk_points customer_data = Inr points"
    and b: "band = band_of ((if truthy (get customer_data ''pep_status'') then 50 else 0)
                     + (if truthy (get customer_data ''business_name'') then 20 else 0)
                     + points)"
    unfolding calculate_estimated_risk_points and_then_def by (auto split: sum.splits)
  have 1: "risk_points (put customer_data ''pep_status'' (PBool True)) = Inr points"
    using p by (simp add: risk_points_put)
  have 2: "risk_points (put customer_data ''business_name'' business_name) = Inr points"
    using p by (simp add: risk_points_put)
  show ?thesis
    unfolding calculate_estimated_risk_points 1 2 b
    by (auto simp: and_then_def get_put intro!: band_of_mono)
qed

theorem calculate_estimated_risk_monotonic_witness:
  "calculate_estimated_risk scored_example = Inr ''Low''
   \<and> truthy (PStr ''Acme Ltd'')
   \<and> calculate_estimated_risk (put scored_example ''pep_status'' (PBool True)) = Inr ''High''
   \<and> calculate_estimated_risk (put scored_example ''business_name'' (PStr ''Acme Ltd''))
       = Inr ''Medium''
   \<and> band_rank ''Low'' \<le> band_rank ''High'' \<and> band_rank ''Low'' \<le> band_rank ''Medium''"
proof -
  have h: "calculate_estimated_risk scored_example = Inr ''Low''" by code_simp
  have t: "truthy (PStr ''Acme Ltd'')" by simp
  have e1: "calculate_estimated_risk (put scored_example ''pep_status'' (PBool True))
              = Inr ''High''"
    by code_simp
  have e2: "calculate_estimated_risk (put scored_example ''business_name'' (PStr ''Acme Ltd''))
              = Inr ''Medium''"
    by code_simp
  from calculate_estimated_risk_monotonic [OF h, of "PStr ''Acme Ltd''"] t
  have "band_rank ''Low'' \<le> band_rank ''High'' \<and> band_rank ''Low'' \<le> band_rank ''Medium''"
    unfolding e1 e2 by simp
  with h t e1 e2 show ?thesis by blast
qed

section \<open>Enrichment\<close>

lemma get_note_document:
  "k \<noteq> ''document_details'' \<Longrightarrow> get (note_document c t e) k = get c k"
  by (simp add: note_document_def get_put split: pyval.splits)

text \<open>A document leaves alone every field that its kind does not feed.\<close>

lemma absorb_document_other:
  assumes "absorb_document P W (t, i) c = Inr c'"
    and "k \<noteq> ''document_details''" and "k \<notin> set (fed_by t)"
  shows "get c' k = get c k"
  using assms
  unfolding absorb_document_def Let_def fed_by_def
  by (auto simp: and_then_Inr get_put get_note_document
      split: option.splits extraction.splits if_splits prod.splits)

lemma absorb_document_miss:
  assumes "t' \<noteq> t" and "k \<in> set (fed_by t)"
    and "absorb_document P W (t', i') c0 = Inr c1"
  shows "get c1 k = get c0 k"
proof -
  from assms(1,2) have "k \<noteq> ''document_details''" and "k \<notin> set (fed_by t')"
    by (auto simp: fed_by_def split: if_splits)
  with assms(3) show ?thesis by (rule absorb_document_other)
qed

text \<open>What a document whose extraction succeeded does to the fields of its kind.\<close>

lemma absorb_document_hit:
  assumes "absorb_document P W (t, i) c0 = Inr c1"
    and "find_document W t i = Some (filename, Extracted (PDict ex))"
  shows "t = ''id_proof'' \<Longrightarrow>
           get c1 ''name'' = (if extracted_name P ex \<noteq> [] then PStr (extracted_name P ex)
                              else get c0 ''name'')"
    and "t = ''id_proof'' \<Longrightarrow> get c1 ''dob'' = py_or (get ex ''dob'') (get c0 ''dob'')"
    and "t = ''id_proof'' \<Longrightarrow>
           get c1 ''nationality'' = py_or (get ex ''nationality'') (get c0 ''nationality'')"
    and "t = ''address_proof'' \<Longrightarrow>
           get c1 ''address'' = py_or (get ex ''full_address'') (get c0 ''address'')"
    and "t = ''employment_proof'' \<Longrightarrow>
           get c1 ''employer'' = py_or (get ex ''employer_name'') (get c0 ''employer'')"
    and "t = ''employment_proof'' \<Longrightarrow>
           get c1 ''occupation'' = py_or (get ex ''position'') (get c0 ''occupation'')"
    and "t = ''employment_proof'' \<Longrightarrow>
           \<exists>salary. parse_salary P (get ex ''annual_salary'') = Inr salary
             \<and> get c1 ''annual_income'' = py_or salary (get c0 ''annual_income'')"
  using assms
  unfolding absorb_document_def Let_def
  by (auto simp: and_then_Inr get_put get_note_document dict_method_def)

text \<open>
  The loop over the documents, seen from one field: the document of the kind that feeds
  the field changes it, every other document leaves it alone. The keys of a dictionary
  are distinct.
\<close>

lemma absorb_documents_field:
  assumes "absorb_documents P W docs c = Inr c'"
    and "distinct (map fst docs)" and "(t, i) \<in> set docs"
    and hit: "\<And>c0 c1. absorb_document P W (t, i) c0 = Inr c1 \<Longrightarrow> get c1 k = F (get c0 k)"
    and miss: "\<And>t' i' c0 c1. t' \<noteq> t \<Longrightarrow> absorb_document P W (t', i') c0 = Inr c1
                  \<Longrightarrow> get c1 k = get c0 k"
  shows "get c' k = F (get c k)"
  using assms(1-3)
proof (induction docs arbitrary: c)
  case Nil
  then show ?case by simp
next
  case (Cons d docs)
  from Cons.prems(1) obtain c1 where s: "absorb_document P W d c = Inr c1"
    and r: "absorb_documents P W docs c1 = Inr c'"
    by (auto simp: and_then_Inr)
  show ?case
  proof (cases "d = (t, i)")
    case True
    with Cons.prems(2) have notin: "t \<notin> fst ` set docs" by auto
    have rest: "get c' k = get c1 k" using r notin
    proof (induction docs arbitrary: c1)
      case Nil
      then show ?case by simp
    next
      case (Cons e es)
      from Cons.prems(1) obtain c2 where s2: "absorb_document P W e c1 = Inr c2"
        and r2: "absorb_documents P W es c2 = Inr c'"
        by (auto simp: and_then_Inr)
      from Cons.prems(2) have "fst e \<noteq> t" by auto
      with s2 miss [of "fst e" "snd e" c1 c2] have "get c2 k = get c1 k" by simp
      moreover from Cons.IH [OF r2] Cons.prems(2) have "get c' k = get c2 k" by simp
      ultimately show ?case by simp
    qed
    with s True hit show ?thesis by simp
  next
    case False
    with Cons.prems(2,3) have "fst d \<noteq> t" and "(t, i) \<in> set docs"
      by (auto simp: image_iff)
    with s miss [of "fst d" "snd d" c c1] have "get c1 k = get c k" by simp
    moreover from Cons.IH [OF r] Cons.prems(2) \<open>(t, i) \<in> set docs\<close>
    have "get c' k = F (get c1 k)" by simp
    ultimately show ?thesis by simp
  qed
qed

lemma absorb_documents_ran:
  "absorb_documents P W docs c = Inr c' \<Longrightarrow> d \<in> set docs \<Longrightarrow>
   \<exists>c0 c1. absorb_document P W d c0 = Inr c1"
  by (induction docs arbitrary: c) (auto simp: and_then_Inr)

lemma enhance_fields:
  assumes "enhance_customer_data_with_documents P W cd = Inr enriched"
  shows "\<exists>docs c'. get_or cd ''documents'' (PDict []) = PDict docs
          \<and> absorb_documents P W docs (comprehensive W cd) = Inr c'
          \<and> (\<forall>k. k \<noteq> ''customer_type'' \<and> k \<noteq> ''estimated_risk_level''
                 \<longrightarrow> get enriched k = get c' k)"
  using assms
  unfolding enhance_customer_data_with_documents_def Let_def and_then_Inr
  by (auto simp: get_put dict_method_def split: pyval.splits)

lemma get_comprehensive:
  "get (comprehensive W cd) ''name'' = get_or cd ''name'' (PStr [])"
  "get (comprehensive W cd) ''dob'' = get_or cd ''dob'' (PStr [])"
  "get (comprehensive W cd) ''nationality'' = get_or cd ''nationality'' (PStr [])"
  "get (comprehensive W cd) ''address'' = get_or cd ''address'' (PStr [])"
  "get (comprehensive W cd) ''employer'' = get_or cd ''employer'' (PStr [])"
  "get (comprehensive W cd) ''occupation'' = get_or cd ''occupation'' (PStr [])"
  "get (comprehensive W cd) ''annual_income'' = get cd ''annual_income''"
  by (simp_all add: comprehensive_def get_def get_or_def)

text \<open>
  Claim C3, as the code has it. For an attached document whose extraction succeeded, the
  extracted record has priority. Name, date of birth, nationality, address, employer and
  occupation take the extracted value whenever that value is not empty, and keep the
  declared value only when the extracted one is empty or absent. The income takes the
  number that the extracted salary converts to whenever the salary is a text that is not
  empty and converts to a number other than zero, and keeps the declared income
  otherwise.
\<close>

theorem enrichment_prefers_extracted:
  assumes "enhance_customer_data_with_documents P W customer_data = Inr enriched"
    and "get_or customer_data ''documents'' (PDict []) = PDict documents"
    and "distinct (map fst documents)"
    and "(doc_type, doc_id) \<in> set documents"
    and "find_document W doc_type doc_id = Some (filename, Extracted (PDict extracted))"
  shows "(doc_type = ''id_proof'' \<longrightarrow>
            get enriched ''name'' =
              (if extracted_name P extracted \<noteq> [] then PStr (extracted_name P extracted)
               else get_or customer_data ''name'' (PStr []))
          \<and> get enriched ''dob'' =
              (if truthy (get extracted ''dob'') then get extracted ''dob''
               else get_or customer_data ''dob'' (PStr []))
          \<and> get enriched ''nationality'' =
              (if truthy (get extracted ''nationality'') then get extracted ''nationality''
               else get_or customer_data ''nationality'' (PStr [])))
       \<and> (doc_type = ''address_proof'' \<longrightarrow>
            get enriched ''address'' =
              (if truthy (get extracted ''full_address'') then get extracted ''full_address''
               else get_or customer_data ''address'' (PStr [])))
       \<and> (doc_type = ''employment_proof'' \<longrightarrow>
            get enriched ''employer'' =
              (if truthy (get extracted ''employer_name'') then get extracted ''employer_name''
               else get_or customer_data ''employer'' (PStr []))
          \<and> get enriched ''occupation'' =
              (if truthy (get extracted ''position'') then get extracted ''position''
               else get_or customer_data ''occupation'' (PStr []))
          \<and> get enriched ''annual_income'' =
              (case get extracted ''annual_salary'' of
                 PStr s \<Rightarrow>
                   (case salary_float P s of
                      Some x \<Rightarrow> if s \<noteq> [] \<and> x \<noteq> Finite 0 then PFloat x
                                else get customer_data ''annual_income''
                    | None \<Rightarrow> get customer_data ''annual_income'')
               | _ \<Rightarrow> get customer_data ''annual_income''))"
proof -
  from enhance_fields [OF assms(1)] assms(2) obtain c'
    where run: "absorb_documents P W documents (comprehensive W customer_data) = Inr c'"
      and same: "\<And>k. k \<noteq> ''customer_type'' \<Longrightarrow> k \<noteq> ''estimated_risk_level''
                   \<Longrightarrow> get enriched k = get c' k"
    by auto
  note step = absorb_documents_field [OF run assms(3) assms(4)]
  note hit = absorb_document_hit [OF _ assms(5)]
  have field: "get c' k = F (get (comprehensive W customer_data) k)"
    if "k \<in> set (fed_by doc_type)"
      and "\<And>c0 c1. absorb_document P W (doc_type, doc_id) c0 = Inr c1
              \<Longrightarrow> get c1 k = F (get c0 k)" for k F
    using that(2) absorb_document_miss [OF _ that(1)] by (rule step)
  show ?thesis
  proof (intro conjI impI)
    assume t: "doc_type = ''id_proof''"
    show "get enriched ''name'' =
              (if extracted_name P extracted \<noteq> [] then PStr (extracted_name P extracted)
               else get_or customer_data ''name'' (PStr []))"
      using field [of "''name''" "\<lambda>old. if extracted_name P extracted \<noteq> []
                                     then PStr (extracted_name P extracted) else old"]
        hit(1) t same [of "''name''"]
      by (simp add: fed_by_def get_comprehensive)
    show "get enriched ''dob'' =
              (if truthy (get extracted ''dob'') then get extracted ''dob''
               else get_or customer_data ''dob'' (PStr []))"
      using field [of "''dob''" "py_or (get extracted ''dob'')"] hit(2) t same [of "''dob''"]
      by (simp add: fed_by_def get_comprehensive py_or_def)
    show "get enriched ''nationality'' =
              (if truthy (get extracted ''nationality'') then get extracted ''nationality''
               else get_or customer_data ''nationality'' (PStr []))"
      using field [of "''nationality''" "py_or (get extracted ''nationality'')"] hit(3) t
        same [of "''nationality''"]
      by (simp add: fed_by_def get_comprehensive py_or_def)
  next
    assume t: "doc_type = ''address_proof''"
    show "get enriched ''address'' =
              (if truthy (get extracted ''full_address'') then get extracted ''full_address''
               else get_or customer_data ''address'' (PStr []))"
      using field [of "''address''" "py_or (get extracted ''full_address'')"] hit(4) t
        same [of "''address''"]
      by (simp add: fed_by_def get_comprehensive py_or_def)
  next
    assume t: "doc_type = ''employment_proof''"
    show "get enriched ''employer'' =
              (if truthy (get extracted ''employer_name'') then get extracted ''employer_name''
               else get_or customer_data ''employer'' (PStr []))"
      using field [of "''employer''" "py_or (get extracted ''employer_name'')"] hit(5) t
        same [of "''employer''"]
      by (simp add: fed_by_def get_comprehensive py_or_def)
    show "get enriched ''occupation'' =
              (if truthy (get extracted ''position'') then get extracted ''position''
               else get_or customer_data ''occupation'' (PStr []))"
      using field [of "''occupation''" "py_or (get extracted ''position'')"] hit(6) t
        same [of "''occupation''"]
      by (simp add: fed_by_def get_comprehensive py_or_def)
    show "get enriched ''annual_income'' =
              (case get extracted ''annual_salary'' of
                 PStr s \<Rightarrow>
                   (case salary_float P s of
                      Some x \<Rightarrow> if s \<noteq> [] \<and> x \<noteq> Finite 0 then PFloat x
                                else get customer_data ''annual_income''
                    | None \<Rightarrow> get customer_data ''annual_income'')
               | _ \<Rightarrow> get customer_data ''annual_income'')"
    proof -
      from absorb_documents_ran [OF run assms(4)] obtain c0 c1
        where "absorb_document P W (doc_type, doc_id) c0 = Inr c1" by blast
      from hit(7) [OF this t] obtain salary
        where salary: "parse_salary P (get extracted ''annual_salary'') = Inr salary" by blast
      have "get d1 ''annual_income'' = py_or salary (get d0 ''annual_income'')"
        if "absorb_document P W (doc_type, doc_id) d0 = Inr d1" for d0 d1
        using hit(7) [OF that t] salary by auto
      with t have "get c' ''annual_income''
              = py_or salary (get (comprehensive W customer_data) ''annual_income'')"
        using field [of "''annual_income''" "py_or salary"] by (simp add: fed_by_def)
      with same [of "''annual_income''"]
      have "get enriched ''annual_income''
              = (if truthy salary then salary else get customer_data ''annual_income'')"
        by (simp add: get_comprehensive py_or_def)
      moreover from salary
      have "salary =
              (case get extracted ''annual_salary'' of
                 PStr s \<Rightarrow>
                   if s = [] then PNone
                   else (case salary_float P s of Some x \<Rightarrow> PFloat x | None \<Rightarrow> PNone)
               | _ \<Rightarrow> PNone)"
        by (cases "get extracted ''annual_salary''")
          (auto simp: parse_salary_def and_then_Inr str_method_def split: if_splits)
      ultimately show ?thesis
        by (simp split: pyval.splits option.splits)
    qed
  qed
qed

theorem enrichment_prefers_extracted_witness:
  "enhance_customer_data_with_documents bare_platform document_world declared_submission
     = Inr enriched_example
   \<and> get_or declared_submission ''documents'' (PDict []) = PDict [(''id_proof'', PStr ''ID123'')]
   \<and> distinct (map fst [(''id_proof'', PStr ''ID123'')])
   \<and> (''id_proof'', PStr ''ID123'') \<in> set [(''id_proof'', PStr ''ID123'')]
   \<and> find_document document_world ''id_proof'' (PStr ''ID123'')
       = Some (''id_proof_ID123.png'',
               Extracted (PDict [(''first_name'', PStr ''Bob''), (''last_name'', PStr ''Jones''),
                                 (''dob'', PStr ''1980-02-02''),
                                 (''nationality'', PStr ''Canadian'')]))
   \<and> get enriched_example ''name'' = PStr ''Bob Jones''
   \<and> get enriched_example ''dob'' = PStr ''1980-02-02''
   \<and> get enriched_example ''nationality'' = PStr ''Canadian''
   \<and> enhance_customer_data_with_documents bare_platform employment_world employed_submission
       = Inr employed_enriched
   \<and> get_or employed_submission ''documents'' (PDict [])
       = PDict [(''employment_proof'', PStr ''E77'')]
   \<and> find_document employment_world ''employment_proof'' (PStr ''E77'')
       = Some (''employment_proof_E77.pdf'',
               Extracted (PDict [(''employer_name'', PStr ''Acme Ltd''), (''position'', PStr []),
                                 (''annual_salary'', PStr ''60k'')]))
   \<and> get employed_enriched ''employer'' = PStr ''Acme Ltd''
   \<and> get employed_enriched ''occupation'' = PStr ''Engineer''
   \<and> get employed_enriched ''annual_income'' = PInt 50000"
proof -
  let ?ex = "[(''first_name'', PStr ''Bob''), (''last_name'', PStr ''Jones''),
              (''dob'', PStr ''1980-02-02''), (''nationality'', PStr ''Canadian'')]"
  let ?em = "[(''employer_name'', PStr ''Acme Ltd''), (''position'', PStr []),
              (''annual_salary'', PStr ''60k'')]"
  have h1: "enhance_customer_data_with_documents bare_platform document_world
              declared_submission = Inr enriched_example"
    by code_simp
  have h2: "get_or declared_submission ''documents'' (PDict [])
              = PDict [(''id_proof'', PStr ''ID123'')]"
    by code_simp
  have h3: "distinct (map fst [(''id_proof'', PStr ''ID123'')])" by simp
  have h4: "(''id_proof'', PStr ''ID123'') \<in> set [(''id_proof'', PStr ''ID123'')]" by simp
  have h5: "find_document document_world ''id_proof'' (PStr ''ID123'')
              = Some (''id_proof_ID123.png'', Extracted (PDict ?ex))"
    by code_simp
  have n: "extracted_name bare_platform ?ex = ''Bob Jones''" by code_simp
  have v: "get ?ex ''dob'' = PStr ''1980-02-02''" "get ?ex ''nationality'' = PStr ''Canadian''"
    by code_simp+
  from enrichment_prefers_extracted [OF h1 h2 h3 h4 h5]
  have id: "get enriched_example ''name'' = PStr ''Bob Jones''
        \<and> get enriched_example ''dob'' = PStr ''1980-02-02''
        \<and> get enriched_example ''nationality'' = PStr ''Canadian''"
    unfolding n v by simp
  have k1: "enhance_customer_data_with_documents bare_platform employment_world
              employed_submission = Inr employed_enriched"
    by code_simp
  have k2: "get_or employed_submission ''documents'' (PDict [])
              = PDict [(''employment_proof'', PStr ''E77'')]"
    by code_simp
  have k3: "distinct (map fst [(''employment_proof'', PStr ''E77'')])" by simp
  have k4: "(''employment_proof'', PStr ''E77'') \<in> set [(''employment_proof'', PStr ''E77'')]"
    by simp
  have k5: "find_document employment_world ''employment_proof'' (PStr ''E77'')
              = Some (''employment_proof_E77.pdf'', Extracted (PDict ?em))"
    by code_simp
  have w: "get ?em ''employer_name'' = PStr ''Acme Ltd''" "get ?em ''position'' = PStr []"
    "get ?em ''annual_salary'' = PStr ''60k''"
    "get_or employed_submission ''occupation'' (PStr []) = PStr ''Engineer''"
    "get employed_submission ''annual_income'' = PInt 50000"
    "salary_float bare_platform ''60k'' = None"
    by code_simp+
  from enrichment_prefers_extracted [OF k1 k2 k3 k4 k5]
  have em: "get employed_enriched ''employer'' = PStr ''Acme Ltd''
        \<and> get employed_enriched ''occupation'' = PStr ''Engineer''
        \<and> get employed_enriched ''annual_income'' = PInt 50000"
    by (simp add: w)
  from h1 h2 h3 h4 h5 id k1 k2 k5 em show ?thesis by blast
qed

text \<open>
  Claim C3 as stated fails where a declared name, date of birth and nationality meet an
  ID proof that carries other values: all three are present on both sides, and the
  enriched record holds the extracted ones.
\<close>

theorem enrichment_overwrites_declared_counterexample:
  "get declared_submission ''name'' = PStr ''Alice Smith''
   \<and> get declared_submission ''dob'' = PStr ''1985-06-15''
   \<and> get declared_submission ''nationality'' = PStr ''British''
   \<and> enhance_customer_data_with_documents bare_platform document_world declared_submission
       = Inr enriched_example
   \<and> get enriched_example ''name'' = PStr ''Bob Jones''
   \<and> get enriched_example ''dob'' = PStr ''1980-02-02''
   \<and> get enriched_example ''nationality'' = PStr ''Canadian''"
  by code_simp


section \<open>Submission pipeline\<close>

lemma final_status_of_cases:
  "final_status_of validation compliance =
     (if validation = PStr ''incomplete'' \<or> compliance = PStr ''warning'' then ''pending''
      else if validation = PStr ''error'' \<or> compliance = PStr ''violation'' then ''rejected''
      else ''approved'')"
  by (simp add: final_status_of_def py_eq_PStr)







text \<open>A stage whose call raises, or whose agent is not configured, returns a failure reply.\<close>

lemma stage_failure:
  assumes "\<forall>agent request input_data. \<exists>e. invoke_agent W agent request input_data = Raises e"
  shows "failure_reply (fst (invoke_bedrock_agent P W configured input_data name type S))"
proof (cases configured)
  case None
  then show ?thesis
    by (simp add: invoke_bedrock_agent_def failure_reply_def get_def get_or_def has_key_def)
next
  case (Some agent)
  show ?thesis
  proof (cases "agent = []")
    case True
    with Some show ?thesis
      by (simp add: invoke_bedrock_agent_def failure_reply_def get_def get_or_def has_key_def)
  next
    case False
    from assms obtain e where "invoke_agent W agent Structured input_data = Raises e"
      by blast
    with Some False show ?thesis
      by (simp add: invoke_bedrock_agent_def Let_def failure_reply_def get_def get_or_def
          has_key_def)
  qed
qed

text \<open>What the pipeline reads in a failure reply: no status, no match, no risk level.\<close>

lemma failure_reply_reading:
  assumes "failure_reply response"
  shows "extract_status_from_response response ''validation_status'' = PStr ''unknown''"
    and "extract_status_from_response response ''compliance_status'' = PStr ''unknown''"
    and "extract_agent_results P response ''sanction_screening_results'' = response"
    and "pep_match response = Inr None"
    and "extract_risk_level P response = Inr (PStr ''Unknown'')"
  using assms
  by (auto simp: failure_reply_def extract_status_from_response_def extract_agent_results_def
      pep_match_def extract_risk_level_def get_def get_or_def has_key_def py_eq_PStr
      split: pyval.splits option.splits)

lemma screening_stages_failure:
  assumes "\<forall>agent request input_data. \<exists>e. invoke_agent W agent request input_data = Raises e"
    and "screening_stages P W en S = ((vr, rr, sr), S')"
  shows "failure_reply vr" and "failure_reply rr" and "failure_reply sr"
  using assms(2) stage_failure [OF assms(1), of P]
  unfolding screening_stages_def Let_def split_beta
  by auto

lemma compliance_and_decision_failure:
  assumes "\<forall>agent request input_data. \<exists>e. invoke_agent W agent request input_data = Raises e"
    and "failure_reply vr" and "failure_reply rr"
  shows "\<exists>result S'. compliance_and_decision P W cd en vr rr sr S = (result, Some S')
           \<and> get result ''status'' = PStr ''success''
           \<and> get result ''final_status'' = PStr ''approved''
           \<and> status (row S') = PStr ''approved''"
  unfolding compliance_and_decision_def Let_def split_beta
  by (simp add: failure_reply_reading [OF assms(2)] failure_reply_reading [OF assms(3)]
      failure_reply_reading [OF stage_failure [OF assms(1)]]
      final_status_of_cases get_def get_or_def update_case_status_def)

text \<open>
  Claim C2. The code does not do what the claim requires. When every call of the agent
  runtime raises and the enrichment before the stages has returned, the run does not
  raise: it returns with success, and the
  status it returns and writes to the case is \<open>approved\<close>: a failed stage reports its
  error under the key \<open>status\<close>, which the final decision does not read, so both probes
  read \<open>unknown\<close> and neither \<open>pending\<close> nor \<open>rejected\<close> is chosen.
\<close>

theorem all_stages_failing_approved:
  assumes "\<forall>agent request input_data. \<exists>e. invoke_agent W agent request input_data = Raises e"
    and "enhance_customer_data_with_documents P W
           (if \<not> has_key submitted ''customer_id''
            then put submitted ''customer_id'' (PStr (fresh_customer_id W)) else submitted)
         = Inr enhanced"
  shows "\<exists>result S. process_customer_submission P W existing submitted = (result, Some S)
           \<and> get result ''status'' = PStr ''success''
           \<and> get result ''final_status'' = PStr ''approved''
           \<and> status (row S) = PStr ''approved''"
proof -
  obtain vr rr sr S1
    where stages: "screening_stages P W enhanced (get_or_create_case W existing enhanced)
                     = ((vr, rr, sr), S1)"
    by (metis prod.collapse)
  note failed = screening_stages_failure [OF assms(1) stages]
  note read = failure_reply_reading [OF failed(3)]
  from compliance_and_decision_failure [OF assms(1) failed(1) failed(2)]
  show ?thesis
    unfolding process_customer_submission_def Let_def assms(2)
    by (simp add: stages read)
qed

theorem all_stages_failing_approved_witness:
  "fst (process_customer_submission bare_platform failing_world None plain_submission)
     = [(''status'', PStr ''success''), (''customer_id'', PStr ''CUST001''),
        (''case_id'', PInt 1), (''final_status'', PStr ''approved''),
        (''risk_level'', PStr ''Unknown''), (''validation_status'', PStr ''unknown''),
        (''compliance_status'', PStr ''unknown''),
        (''timestamp'', PStr ''2024-05-01T12:00:00'')]
   \<and> map_option (\<lambda>S. (status (row S), map step_status (steps S)))
        (snd (process_customer_submission bare_platform failing_world None plain_submission))
       = Some (PStr ''approved'', [''error'', ''error'', ''error'', ''error'', ''error''])"
proof -
  let ?run = "process_customer_submission bare_platform failing_world None plain_submission"
  have a: "\<forall>agent request input_data.
             \<exists>e. invoke_agent failing_world agent request input_data = Raises e"
    by (simp add: failing_world_def)
  have e: "enhance_customer_data_with_documents bare_platform failing_world
             (if \<not> has_key plain_submission ''customer_id''
              then put plain_submission ''customer_id'' (PStr (fresh_customer_id failing_world))
              else plain_submission)
           = Inr [(''name'', PStr ''Alice Smith''), (''email'', PStr ''alice@example.com''),
                  (''phone'', PStr ''555-0100''), (''address'', PStr ''12 Oak Lane''),
                  (''customer_id'', PStr ''CUST001''), (''dob'', PStr []),
                  (''nationality'', PStr []), (''occupation'', PStr []),
                  (''employer'', PStr []), (''annual_income'', PNone),
                  (''source_of_funds'', PStr []), (''business_name'', PStr []),
                  (''position'', PStr []), (''university'', PStr []),
                  (''pep_status'', PBool False), (''documents'', PDict []),
                  (''document_details'', PDict []),
                  (''submission_time'', PStr ''2024-05-01T12:00:00''),
                  (''processing_status'', PStr ''submitted''),
                  (''customer_type'', PStr ''Individual''),
                  (''estimated_risk_level'', PStr ''Medium'')]"
    by code_simp
  from all_stages_failing_approved [OF a e, of None]
  have "get (fst ?run) ''final_status'' = PStr ''approved''" by auto
  moreover have "fst ?run
     = [(''status'', PStr ''success''), (''customer_id'', PStr ''CUST001''),
        (''case_id'', PInt 1), (''final_status'', PStr ''approved''),
        (''risk_level'', PStr ''Unknown''), (''validation_status'', PStr ''unknown''),
        (''compliance_status'', PStr ''unknown''),
        (''timestamp'', PStr ''2024-05-01T12:00:00'')]"
    by code_simp
  moreover have "map_option (\<lambda>S. (status (row S), map step_status (steps S))) (snd ?run)
       = Some (PStr ''approved'', [''error'', ''error'', ''error'', ''error'', ''error''])"
    by code_simp
  ultimately show ?thesis by blast
qed

end
